theory Spec2Isabelle
  imports Complex_Main "HOL-Library.Word" "HOL-Library.Sublist" "HOL-Library.Monad_Syntax"
    "HOL-Library.Multiset"
begin

section \<open>JavaScript values\<close>

text \<open>
  The repository holds four versions of one Express server: \<^verbatim>\<open>server.js\<close> and three
  unnamed files, called here \<open>p0\<close> (part_000), \<open>p1\<close> (part_001) and \<open>p2\<close> (part_002).
  Each defines the route \<^verbatim>\<open>GET /api/rdw\<close>. This theory embeds the route handlers of
  \<^verbatim>\<open>server.js\<close>, \<open>p0\<close> and \<open>p1\<close> and the helpers they use.

  A JavaScript string is a sequence of UTF-16 code units; \<open>length\<close>, \<open>slice\<close> and the
  regular expression of the handlers count code units.
\<close>

type_synonym code_unit = "16 word"
type_synonym jsstring = "code_unit list"

text \<open>An ASCII literal of the source, as code units.\<close>

definition asc :: "string \<Rightarrow> jsstring" where
  "asc s = map of_char s"

text \<open>
  A number is \<open>NaN\<close>, an infinity or a finite value. A finite value is held exactly, as
  a rational: the rounding of a literal to the nearest binary64 value is not modelled,
  nor the overflow of a large literal to an infinity or the underflow of a small one to
  zero, and the two zeros are one value (both are falsy, and both print as \<open>0\<close>).
\<close>

datatype jsnum = NaN | NegInf | Fin rat | PosInf

text \<open>
  The values a parsed JSON text and a missing property can give. An object is the list
  of its own properties; a property is looked up by name, the first entry winning.
\<close>

datatype jsval =
    JUndefined
  | JNull
  | JBool bool
  | JNum jsnum
  | JStr jsstring
  | JArr "jsval list"
  | JObj "(jsstring \<times> jsval) list"

text \<open>
  An exception: the name of its class and its message. \<open>String(e?.message || e)\<close> is
  the message, or the name when the message is empty.
\<close>

datatype exn = Exn jsstring jsstring

fun exn_message :: "exn \<Rightarrow> jsstring" where
  "exn_message (Exn n m) = m"

fun exn_detail :: "exn \<Rightarrow> jsstring" where
  "exn_detail (Exn n m) = (if m \<noteq> [] then m else n)"

text \<open>
  What the JavaScript engine and its library provide and the repository does not define:
  the upper-casing of a run of non-ASCII code units (the Unicode case tables),
  \<open>Number.prototype.toString\<close>, \<open>JSON.parse\<close> (\<open>Inl\<close> is the SyntaxError it throws),
  \<open>encodeURIComponent\<close>, and the message of a TypeError the engine raises.
\<close>

record engine =
  upper_nonascii :: "jsstring \<Rightarrow> jsstring"
  num_to_string :: "jsnum \<Rightarrow> jsstring"
  json_parse :: "jsstring \<Rightarrow> exn + jsval"
  encodeURIComponent :: "jsstring \<Rightarrow> jsstring"
  type_error_text :: jsstring

subsection \<open>Truthiness and conversions\<close>

fun truthy :: "jsval \<Rightarrow> bool" where
  "truthy JUndefined = False"
| "truthy JNull = False"
| "truthy (JBool b) = b"
| "truthy (JNum n) = (n \<noteq> NaN \<and> n \<noteq> Fin 0)"
| "truthy (JStr s) = (s \<noteq> [])"
| "truthy (JArr xs) = True"
| "truthy (JObj kvs) = True"

text \<open>\<open>a || b\<close>\<close>

definition js_or :: "jsval \<Rightarrow> jsval \<Rightarrow> jsval" where
  "js_or a b = (if truthy a then a else b)"

fun nullish :: "jsval \<Rightarrow> bool" where
  "nullish JUndefined = True"
| "nullish JNull = True"
| "nullish v = False"

text \<open>\<open>Array.prototype.join\<close> with the separator \<open>,\<close>, on elements already converted.\<close>

fun join_comma :: "jsstring list \<Rightarrow> jsstring" where
  "join_comma [] = []"
| "join_comma [s] = s"
| "join_comma (s # t # ss) = s @ [0x2C] @ join_comma (t # ss)"

text \<open>
  \<open>ToString\<close>. An array converts by \<open>join\<close>, where \<open>undefined\<close> and \<open>null\<close> elements
  give the empty string; an object parsed from JSON gives \<open>[object Object]\<close>.
\<close>

fun ToString :: "engine \<Rightarrow> jsval \<Rightarrow> jsstring" where
  "ToString E JUndefined = asc ''undefined''"
| "ToString E JNull = asc ''null''"
| "ToString E (JBool b) = (if b then asc ''true'' else asc ''false'')"
| "ToString E (JNum n) = num_to_string E n"
| "ToString E (JStr s) = s"
| "ToString E (JArr xs) =
     join_comma (map (\<lambda>x. if nullish x then [] else ToString E x) xs)"
| "ToString E (JObj kvs) = asc ''[object Object]''"

text \<open>
  White space and line terminators: what \<open>String.prototype.trim\<close> removes at both ends
  and what a numeric string may carry around its literal.
\<close>

definition is_ws :: "code_unit \<Rightarrow> bool" where
  "is_ws c \<longleftrightarrow>
     c = 0x9 \<or> c = 0xA \<or> c = 0xB \<or> c = 0xC \<or> c = 0xD \<or> c = 0x20 \<or> c = 0xA0 \<or>
     c = 0x1680 \<or> (0x2000 \<le> c \<and> c \<le> 0x200A) \<or> c = 0x2028 \<or> c = 0x2029 \<or>
     c = 0x202F \<or> c = 0x205F \<or> c = 0x3000 \<or> c = 0xFEFF"

definition trim :: "jsstring \<Rightarrow> jsstring" where
  "trim s = rev (dropWhile is_ws (rev (dropWhile is_ws s)))"

definition is_digit :: "code_unit \<Rightarrow> bool" where
  "is_digit c \<longleftrightarrow> 0x30 \<le> c \<and> c \<le> 0x39"

definition hex_val :: "code_unit \<Rightarrow> nat option" where
  "hex_val c =
     (if 0x30 \<le> c \<and> c \<le> 0x39 then Some (unat c - 48)
      else if 0x61 \<le> c \<and> c \<le> 0x66 then Some (unat c - 87)
      else if 0x41 \<le> c \<and> c \<le> 0x46 then Some (unat c - 55)
      else None)"

text \<open>The value of a non-empty run of digits in a radix, \<open>None\<close> on any other string.\<close>

definition radix_value :: "nat \<Rightarrow> jsstring \<Rightarrow> nat option" where
  "radix_value b ds =
     (if ds \<noteq> [] \<and> list_all (\<lambda>c. case hex_val c of None \<Rightarrow> False | Some d \<Rightarrow> d < b) ds
      then Some (foldl (\<lambda>a c. b * a + the (hex_val c)) 0 ds)
      else None)"

text \<open>\<open>0x\<close>, \<open>0o\<close> and \<open>0b\<close> literals (either case of the letter), which take no sign.\<close>

definition radix_literal :: "jsstring \<Rightarrow> nat option" where
  "radix_literal s =
     (case s of
        z # x # ds \<Rightarrow>
          if z \<noteq> 0x30 then None
          else if x = 0x78 \<or> x = 0x58 then radix_value 16 ds
          else if x = 0x6F \<or> x = 0x4F then radix_value 8 ds
          else if x = 0x62 \<or> x = 0x42 then radix_value 2 ds
          else None
      | _ \<Rightarrow> None)"

text \<open>The exponent part after its \<open>e\<close>: an optional sign and at least one digit.\<close>

definition exponent_part :: "jsstring \<Rightarrow> int option" where
  "exponent_part s =
     (let digs = (\<lambda>r. map_option int (radix_value 10 r)) in
      case s of
        [] \<Rightarrow> None
      | c # r \<Rightarrow>
          if c = 0x2B then digs r
          else if c = 0x2D then map_option uminus (digs r)
          else digs s)"

definition scale10 :: "rat \<Rightarrow> int \<Rightarrow> rat" where
  "scale10 q e = (if 0 \<le> e then q * 10 ^ nat e else q / 10 ^ nat (- e))"

text \<open>
  An unsigned decimal literal: digits, an optional point with digits, an optional
  exponent; at least one digit before or after the point, and no point without digits
  on one side.
\<close>

definition unsigned_decimal :: "jsstring \<Rightarrow> rat option" where
  "unsigned_decimal s =
     (let ip = takeWhile is_digit s;
          r1 = dropWhile is_digit s;
          fp = (case r1 of [] \<Rightarrow> [] | c # t \<Rightarrow> if c = 0x2E then takeWhile is_digit t else []);
          r2 = (case r1 of [] \<Rightarrow> [] | c # t \<Rightarrow> if c = 0x2E then dropWhile is_digit t else r1);
          ex = (case r2 of
                  [] \<Rightarrow> Some 0
                | c # t \<Rightarrow> if c = 0x65 \<or> c = 0x45 then exponent_part t else None)
      in if ip = [] \<and> fp = [] then None
         else case ex of
                None \<Rightarrow> None
              | Some e \<Rightarrow>
                  Some (scale10
                    (of_nat (foldl (\<lambda>a c. 10 * a + (unat c - 48)) 0 ip) +
                     of_nat (foldl (\<lambda>a c. 10 * a + (unat c - 48)) 0 fp) / 10 ^ length fp) e))"

definition unsigned_literal :: "jsstring \<Rightarrow> jsnum" where
  "unsigned_literal s =
     (if s = asc ''Infinity'' then PosInf
      else case unsigned_decimal s of None \<Rightarrow> NaN | Some q \<Rightarrow> Fin q)"

fun num_neg :: "jsnum \<Rightarrow> jsnum" where
  "num_neg NaN = NaN"
| "num_neg NegInf = PosInf"
| "num_neg (Fin q) = Fin (- q)"
| "num_neg PosInf = NegInf"

text \<open>
  \<open>StringToNumber\<close>: the string without its surrounding white space is empty (zero), a
  radix literal, or a signed decimal literal; every other string is \<open>NaN\<close>.
\<close>

definition StringToNumber :: "jsstring \<Rightarrow> jsnum" where
  "StringToNumber s0 =
     (let s = trim s0 in
      case s of
        [] \<Rightarrow> Fin 0
      | c # r \<Rightarrow>
          (case radix_literal s of
             Some n \<Rightarrow> Fin (of_nat n)
           | None \<Rightarrow>
               if c = 0x2D then num_neg (unsigned_literal r)
               else if c = 0x2B then unsigned_literal r
               else unsigned_literal s))"

text \<open>
  \<open>Number(v)\<close> and unary \<open>+v\<close>. An array or an object converts through its string.
  An object with an own property \<open>toString\<close> or \<open>valueOf\<close>, on which the engine
  raises a TypeError instead, is not told apart from the others.
\<close>

fun ToNumber :: "engine \<Rightarrow> jsval \<Rightarrow> jsnum" where
  "ToNumber E JUndefined = NaN"
| "ToNumber E JNull = Fin 0"
| "ToNumber E (JBool b) = (if b then Fin 1 else Fin 0)"
| "ToNumber E (JNum n) = n"
| "ToNumber E (JStr s) = StringToNumber s"
| "ToNumber E (JArr xs) = StringToNumber (ToString E (JArr xs))"
| "ToNumber E (JObj kvs) = StringToNumber (ToString E (JObj kvs))"

text \<open>
  The two shaping idioms of the handlers, written inline at every field of the source:
  \<open>v ? Number(v) : null\<close> for a quantity and \<open>v || null\<close> for a text.
\<close>

definition coerce :: "engine \<Rightarrow> jsval \<Rightarrow> jsval" where
  "coerce E v = (if truthy v then JNum (ToNumber E v) else JNull)"

definition or_null :: "jsval \<Rightarrow> jsval" where
  "or_null v = js_or v JNull"

text \<open>
  \<open>x.name\<close> for a value that is not \<open>undefined\<close> or \<open>null\<close>, and a name that no
  prototype defines (true of every field name the handlers read): the own property of
  an object, \<open>undefined\<close> on anything else.
\<close>

definition fld :: "jsval \<Rightarrow> string \<Rightarrow> jsval" where
  "fld x n =
     (case x of
        JObj kvs \<Rightarrow> (case map_of kvs (asc n) of Some v \<Rightarrow> v | None \<Rightarrow> JUndefined)
      | _ \<Rightarrow> JUndefined)"

text \<open>\<open>x.length\<close> of a value that is not \<open>undefined\<close> or \<open>null\<close>.\<close>

definition js_length :: "jsval \<Rightarrow> jsval" where
  "js_length x =
     (case x of
        JStr s \<Rightarrow> JNum (Fin (of_nat (length s)))
      | JArr xs \<Rightarrow> JNum (Fin (of_nat (length xs)))
      | _ \<Rightarrow> fld x ''length'')"

text \<open>\<open>slice(a, b)\<close> of a string or an array, for constants \<open>0 \<le> a \<le> b\<close>.\<close>

definition slice :: "nat \<Rightarrow> nat \<Rightarrow> 'a list \<Rightarrow> 'a list" where
  "slice a b xs = take (b - a) (drop a xs)"

text \<open>
  \<open>x[0]\<close>: a TypeError (\<open>None\<close>) on \<open>undefined\<close> and \<open>null\<close>, the first element of an
  array, the first code unit of a string, the property \<open>0\<close> of an object.
\<close>

definition index0 :: "jsval \<Rightarrow> jsval option" where
  "index0 x =
     (case x of
        JUndefined \<Rightarrow> None
      | JNull \<Rightarrow> None
      | JArr xs \<Rightarrow> Some (case xs of [] \<Rightarrow> JUndefined | y # ys \<Rightarrow> y)
      | JStr s \<Rightarrow> Some (case s of [] \<Rightarrow> JUndefined | c # cs \<Rightarrow> JStr [c])
      | _ \<Rightarrow> Some (fld x ''0''))"

text \<open>\<open>x?.[0]\<close> and \<open>x?.name\<close>: \<open>undefined\<close> on \<open>undefined\<close> and \<open>null\<close>.\<close>

definition opt_index0 :: "jsval \<Rightarrow> jsval" where
  "opt_index0 x = (case index0 x of None \<Rightarrow> JUndefined | Some v \<Rightarrow> v)"

definition opt_fld :: "jsval \<Rightarrow> string \<Rightarrow> jsval" where
  "opt_fld x n = (if nullish x then JUndefined else fld x n)"

subsection \<open>Sorting\<close>

fun num_sub :: "jsnum \<Rightarrow> jsnum \<Rightarrow> jsnum" where
  "num_sub NaN b = NaN"
| "num_sub a NaN = NaN"
| "num_sub (Fin x) (Fin y) = Fin (x - y)"
| "num_sub (Fin x) PosInf = NegInf"
| "num_sub (Fin x) NegInf = PosInf"
| "num_sub PosInf PosInf = NaN"
| "num_sub PosInf b = PosInf"
| "num_sub NegInf NegInf = NaN"
| "num_sub NegInf b = NegInf"

fun positive :: "jsnum \<Rightarrow> bool" where
  "positive PosInf = True"
| "positive (Fin q) = (0 < q)"
| "positive n = False"

text \<open>
  \<open>Array.prototype.sort\<close> with a comparator. The sort is stable, and for a comparator
  that orders the elements consistently the language fixes the result: the elements in
  ascending order, equal ones in their order of entry. That result is computed here by
  insertion from the right, an element moving past those the comparator puts before it
  (a positive result); \<open>NaN\<close> from the comparator counts as zero.
\<close>

fun insert_by :: "('a \<Rightarrow> 'a \<Rightarrow> jsnum) \<Rightarrow> 'a \<Rightarrow> 'a list \<Rightarrow> 'a list" where
  "insert_by cmp x [] = [x]"
| "insert_by cmp x (y # ys) =
     (if positive (cmp x y) then y # insert_by cmp x ys else x # y # ys)"

definition js_sort :: "('a \<Rightarrow> 'a \<Rightarrow> jsnum) \<Rightarrow> 'a list \<Rightarrow> 'a list" where
  "js_sort cmp xs = foldr (insert_by cmp) xs []"

text \<open>
  \<open>(v || []).map(f)\<close>: the empty array for a falsy \<open>v\<close>, a TypeError (\<open>None\<close>) for a
  truthy value that is no array, or when \<open>f\<close> throws.
\<close>

definition js_map :: "jsval \<Rightarrow> (jsval \<Rightarrow> jsval option) \<Rightarrow> jsval option" where
  "js_map v f =
     (case js_or v (JArr []) of
        JArr xs \<Rightarrow> map_option JArr (those (map f xs))
      | _ \<Rightarrow> None)"

section \<open>The plate\<close>

text \<open>
  \<open>req.query.kenteken\<close> as Express parses it: absent, a string, an array or an object
  of such values.
\<close>

datatype qv = QStr jsstring | QArr "qv list" | QObj "(jsstring \<times> qv) list"

fun String_qv :: "qv \<Rightarrow> jsstring" where
  "String_qv (QStr s) = s"
| "String_qv (QArr xs) = join_comma (map String_qv xs)"
| "String_qv (QObj kvs) = asc ''[object Object]''"

text \<open>\<open>String(req.query.kenteken || '')\<close>\<close>

definition query_string :: "qv option \<Rightarrow> jsstring" where
  "query_string q =
     (case q of
        None \<Rightarrow> []
      | Some v \<Rightarrow> if v = QStr [] then [] else String_qv v)"

definition is_ascii :: "code_unit \<Rightarrow> bool" where
  "is_ascii c \<longleftrightarrow> c < 0x80"

definition ascii_upper :: "code_unit \<Rightarrow> code_unit" where
  "ascii_upper c = (if 0x61 \<le> c \<and> c \<le> 0x7A then c - 0x20 else c)"

text \<open>
  \<open>String.prototype.toUpperCase\<close>: \<open>a\<close> to \<open>z\<close> become \<open>A\<close> to \<open>Z\<close>, the other ASCII
  code units stay, and each maximal run of non-ASCII code units is mapped by the engine.
\<close>

function toUpperCase :: "engine \<Rightarrow> jsstring \<Rightarrow> jsstring" where
  "toUpperCase E [] = []"
| "toUpperCase E (c # cs) =
     (if is_ascii c then ascii_upper c # toUpperCase E cs
      else upper_nonascii E (c # takeWhile (\<lambda>d. \<not> is_ascii d) cs) @
           toUpperCase E (dropWhile (\<lambda>d. \<not> is_ascii d) cs))"
  by pat_completeness auto
termination
  by (relation "measure (\<lambda>(E, s). length s)") (auto simp: length_dropWhile_le less_Suc_eq_le)

text \<open>\<open>replace(/-/g, '')\<close>\<close>

definition strip_hyphens :: "jsstring \<Rightarrow> jsstring" where
  "strip_hyphens s = filter (\<lambda>c. c \<noteq> 0x2D) s"

text \<open>The three normalisations, in the order each file applies its steps.\<close>

definition plate_server :: "engine \<Rightarrow> qv option \<Rightarrow> jsstring" where
  "plate_server E q = toUpperCase E (strip_hyphens (query_string q))"

definition plate_p0 :: "engine \<Rightarrow> qv option \<Rightarrow> jsstring" where
  "plate_p0 E q = strip_hyphens (toUpperCase E (query_string q))"

definition plate_p1 :: "engine \<Rightarrow> qv option \<Rightarrow> jsstring" where
  "plate_p1 E q = trim (strip_hyphens (toUpperCase E (query_string q)))"

text \<open>\<open>/^[A-Z0-9]{1,8}$/.test(plate)\<close>\<close>

definition plate_char :: "code_unit \<Rightarrow> bool" where
  "plate_char c \<longleftrightarrow> (0x41 \<le> c \<and> c \<le> 0x5A) \<or> (0x30 \<le> c \<and> c \<le> 0x39)"

definition plate_ok :: "jsstring \<Rightarrow> bool" where
  "plate_ok p \<longleftrightarrow> 1 \<le> length p \<and> length p \<le> 8 \<and> list_all plate_char p"

section \<open>Dates\<close>

definition hyphenate :: "jsstring \<Rightarrow> jsstring \<Rightarrow> jsstring \<Rightarrow> jsstring" where
  "hyphenate a b c = a @ [0x2D] @ b @ [0x2D] @ c"

text \<open>
  \<^verbatim>\<open>server.js\<close>:
  \<^verbatim>\<open>if (!s || typeof s !== 'string' || s.length !== 8) return null;\<close>
  \<^verbatim>\<open>return `${s.slice(0,4)}-${s.slice(4,6)}-${s.slice(6,8)}`;\<close>
\<close>

definition parseDate_server :: "jsval \<Rightarrow> jsval" where
  "parseDate_server s =
     (case s of
        JStr t \<Rightarrow>
          if \<not> truthy s \<or> length t \<noteq> 8 then JNull
          else JStr (hyphenate (slice 0 4 t) (slice 4 6 t) (slice 6 8 t))
      | _ \<Rightarrow> JNull)"

text \<open>
  \<open>p0\<close>, \<open>p1\<close> and \<open>p2\<close>:
  \<^verbatim>\<open>(s && s.length === 8) ? `${s.slice(0,4)}-${s.slice(4,6)}-${s.slice(6,8)}` : null\<close>.
  Without the test of the type, an array of eight elements is sliced and its slices are
  converted to strings, and on an object whose \<open>length\<close> is 8 the call of \<open>slice\<close>, which
  is no function, raises a TypeError (\<open>None\<close>).
\<close>

definition parseDate_p :: "engine \<Rightarrow> jsval \<Rightarrow> jsval option" where
  "parseDate_p E s =
     (if truthy s \<and> js_length s = JNum (Fin 8) then
        (case s of
           JStr t \<Rightarrow> Some (JStr (hyphenate (slice 0 4 t) (slice 4 6 t) (slice 6 8 t)))
         | JArr xs \<Rightarrow>
             Some (JStr (hyphenate (ToString E (JArr (slice 0 4 xs)))
                                   (ToString E (JArr (slice 4 6 xs)))
                                   (ToString E (JArr (slice 6 8 xs)))))
         | _ \<Rightarrow> None)
      else Some JNull)"

text \<open>
  \<^verbatim>\<open>d ? Number(d.slice(0,4)) : null\<close>, the year of first admission: a TypeError on a
  truthy value that is neither a string nor an array.
\<close>

definition bouwjaar :: "engine \<Rightarrow> jsval \<Rightarrow> jsval option" where
  "bouwjaar E d =
     (if truthy d then
        (case d of
           JStr t \<Rightarrow> Some (JNum (ToNumber E (JStr (slice 0 4 t))))
         | JArr xs \<Rightarrow> Some (JNum (ToNumber E (JArr (slice 0 4 xs))))
         | _ \<Rightarrow> None)
      else Some JNull)"

section \<open>The upstream service\<close>

text \<open>
  An outbound request, and what \<open>fetch\<close> gives for it: the promise rejects (\<open>Inl\<close>, a
  network failure), or resolves to a response with a status, a status text and a body
  whose reading can fail in turn. The process environment, the upstream service and the
  time at which the fetch of a URL settles are the world a handler runs in.
\<close>

record request =
  url :: jsstring
  headers :: "(jsstring \<times> jsstring) list"

record http_response =
  status :: nat
  statusText :: jsstring
  body_text :: "exn + jsstring"

record world =
  env :: "jsstring \<rightharpoonup> jsstring"
  upstream :: "request \<Rightarrow> exn + http_response"
  settled :: "jsstring \<Rightarrow> nat"

text \<open>\<open>r.ok\<close>\<close>

definition ok :: "http_response \<Rightarrow> bool" where
  "ok r \<longleftrightarrow> 200 \<le> status r \<and> status r \<le> 299"

text \<open>The status in a template literal: its decimal digits.\<close>

function dec_string :: "nat \<Rightarrow> jsstring" where
  "dec_string n =
     (if n < 10 then [of_nat (48 + n)]
      else dec_string (n div 10) @ [of_nat (48 + n mod 10)])"
  by pat_completeness auto
termination
  by (relation "measure id") auto

declare dec_string.simps [simp del]

text \<open>
  \<^verbatim>\<open>const headers = {};\<close>
  \<^verbatim>\<open>if (process.env.RDW_APP_TOKEN) headers['X-App-Token'] = process.env.RDW_APP_TOKEN;\<close>
\<close>

definition request_headers :: "(jsstring \<rightharpoonup> jsstring) \<Rightarrow> (jsstring \<times> jsstring) list" where
  "request_headers e =
     (case e (asc ''RDW_APP_TOKEN'') of
        None \<Rightarrow> []
      | Some t \<Rightarrow> if t \<noteq> [] then [(asc ''X-App-Token'', t)] else [])"

text \<open>
  The response a handler writes: the status and the value handed to \<open>res.json\<close>
  (its serialisation, which prints \<open>NaN\<close> and the infinities as \<open>null\<close>, is not
  modelled). \<open>Unhandled\<close> stands for an exception that leaves the handler, which then
  writes no response itself.
\<close>

datatype response = Response nat jsval | Unhandled

record outcome =
  response :: response
  requests :: "request list"

text \<open>
  \<open>Promise.all\<close> over fetches that are all issued at once: the values in the order of
  the array, or the rejection that settles first (the earlier entry among equal times).
\<close>

fun rejection :: "nat \<times> (exn + 'a) \<Rightarrow> (nat \<times> exn) option" where
  "rejection (t, Inl e) = Some (t, e)"
| "rejection (t, Inr v) = None"

fun fulfilment :: "nat \<times> (exn + 'a) \<Rightarrow> 'a option" where
  "fulfilment (t, Inl e) = None"
| "fulfilment (t, Inr v) = Some v"

definition promise_all :: "(nat \<times> (exn + 'a)) list \<Rightarrow> exn + 'a list" where
  "promise_all ps =
     (case sort_key fst (List.map_filter rejection ps) of
        [] \<Rightarrow> Inr (List.map_filter fulfilment ps)
      | (t, e) # rest \<Rightarrow> Inl e)"

section \<open>Shaping\<close>

text \<open>One property of an object literal: \<open>out: x.inn ? Number(x.inn) : null\<close>.\<close>

definition quantity :: "engine \<Rightarrow> jsval \<Rightarrow> string \<Rightarrow> string \<Rightarrow> jsstring \<times> jsval" where
  "quantity E x out inn = (asc out, coerce E (fld x inn))"

text \<open>\<open>out: x.inn || null\<close>\<close>

definition textual :: "jsval \<Rightarrow> string \<Rightarrow> string \<Rightarrow> jsstring \<times> jsval" where
  "textual x out inn = (asc out, or_null (fld x inn))"

text \<open>
  The callback of a \<open>map\<close> reads properties of its argument, which raises a TypeError on
  a \<open>null\<close> element.
\<close>

definition on_row :: "(jsval \<Rightarrow> jsval) \<Rightarrow> jsval \<Rightarrow> jsval option" where
  "on_row f x = (if nullish x then None else Some (f x))"

text \<open>The fuel rows of \<^verbatim>\<open>server.js\<close>, \<open>p0\<close> and \<open>p2\<close>.\<close>

definition fuel_row :: "engine \<Rightarrow> jsval \<Rightarrow> jsval" where
  "fuel_row E b = JObj
     [quantity E b ''volgnummer'' ''brandstof_volgnummer'',
      textual b ''omschrijving'' ''brandstof_omschrijving'',
      quantity E b ''verbruik_buiten_l_per_100km'' ''brandstofverbruik_buiten'',
      quantity E b ''verbruik_gecombineerd_l_per_100km'' ''brandstofverbruik_gecombineerd'',
      quantity E b ''verbruik_stad_l_per_100km'' ''brandstofverbruik_stad'',
      quantity E b ''co2_gecombineerd_g_km'' ''co2_uitstoot_gecombineerd'',
      textual b ''emissiecode_omschrijving'' ''emissiecode_omschrijving'',
      textual b ''uitlaatemissieniveau'' ''uitlaatemissieniveau'',
      quantity E b ''nettomaximumvermogen_kw'' ''nettomaximumvermogen'',
      quantity E b ''geluidsniveau_rijdend_db'' ''geluidsniveau_rijdend'',
      quantity E b ''geluidsniveau_stationair_db'' ''geluidsniveau_stationair'',
      quantity E b ''toerental_geluidsniveau'' ''toerental_geluidsniveau'']"

text \<open>The fuel rows of \<open>p1\<close>.\<close>

definition fuel_row_p1 :: "engine \<Rightarrow> jsval \<Rightarrow> jsval" where
  "fuel_row_p1 E x = JObj
     [quantity E x ''brandstof_volgnummer'' ''brandstof_volgnummer'',
      (asc ''omschrijving'',
         js_or (fld x ''brandstof_omschrijving'') (js_or (fld x ''brandstof_omschrijving'') JNull)),
      quantity E x ''co2_gecombineerd_g_km'' ''co2_uitstoot_gecombineerd'',
      quantity E x ''nettomaximumvermogen_kw'' ''nettomaximumvermogen'']"

text \<open>
  The comparators: \<open>(a,b) => (a.volgnummer||0) - (b.volgnummer||0)\<close> in \<^verbatim>\<open>server.js\<close>,
  \<open>p0\<close> and \<open>p2\<close>, and \<open>(a,b) => (a.brandstof_volgnummer||99) - (b.brandstof_volgnummer||99)\<close>
  in \<open>p1\<close>.
\<close>

definition sort_key_of :: "engine \<Rightarrow> string \<Rightarrow> rat \<Rightarrow> jsval \<Rightarrow> jsnum" where
  "sort_key_of E name d a = ToNumber E (js_or (fld a name) (JNum (Fin d)))"

definition by_volgnummer :: "engine \<Rightarrow> jsval \<Rightarrow> jsval \<Rightarrow> jsnum" where
  "by_volgnummer E a b =
     num_sub (sort_key_of E ''volgnummer'' 0 a) (sort_key_of E ''volgnummer'' 0 b)"

definition by_volgnummer_p1 :: "engine \<Rightarrow> jsval \<Rightarrow> jsval \<Rightarrow> jsnum" where
  "by_volgnummer_p1 E a b =
     num_sub (sort_key_of E ''brandstof_volgnummer'' 99 a)
             (sort_key_of E ''brandstof_volgnummer'' 99 b)"

text \<open>\<open>arr.sort(cmp)\<close> on the array a \<open>map\<close> has built.\<close>

fun sorted_array :: "(jsval \<Rightarrow> jsval \<Rightarrow> jsnum) \<Rightarrow> jsval \<Rightarrow> jsval" where
  "sorted_array cmp (JArr xs) = JArr (js_sort cmp xs)"
| "sorted_array cmp v = v"

definition fuels :: "engine \<Rightarrow> jsval \<Rightarrow> jsval option" where
  "fuels E brandstofArr =
     map_option (sorted_array (by_volgnummer E)) (js_map brandstofArr (on_row (fuel_row E)))"

definition fuels_p1 :: "engine \<Rightarrow> jsval \<Rightarrow> jsval option" where
  "fuels_p1 E brand =
     map_option (sorted_array (by_volgnummer_p1 E)) (js_map brand (on_row (fuel_row_p1 E)))"

definition kleur_row :: "jsval \<Rightarrow> jsval" where
  "kleur_row k = JObj
     [textual k ''eerste_kleur'' ''eerste_kleur'',
      textual k ''tweede_kleur'' ''tweede_kleur'']"

definition carrosserie_row :: "engine \<Rightarrow> jsval \<Rightarrow> jsval" where
  "carrosserie_row E c = JObj
     [quantity E c ''carrosserie_volgnummer'' ''carrosserie_volgnummer'',
      textual c ''carrosserietype_omschrijving'' ''carrosserietype_omschrijving'']"

definition as_row :: "engine \<Rightarrow> jsval \<Rightarrow> jsval" where
  "as_row E a = JObj
     [quantity E a ''asnummer'' ''asnummer'',
      quantity E a ''spoorbreedte'' ''spoorbreedte'',
      quantity E a ''technische_max_aslast'' ''technische_max_aslast'',
      quantity E a ''wielbasis'' ''wielbasis'',
      quantity E a ''aantal_assen'' ''aantal_assen'',
      quantity E a ''aslast_technisch_toegestaan'' ''aslast_technisch_toegestaan'']"

text \<open>
  The three properties of the summary that the colour and fuel lists fill:
  \<^verbatim>\<open>kleur: (kleuren[0]?.eerste_kleur || basis.eerste_kleur || null),\<close>
  \<^verbatim>\<open>tweede_kleur: (kleuren[0]?.tweede_kleur || null),\<close>
  \<^verbatim>\<open>brandstof: fuels[0]?.omschrijving || null,\<close>
  \<open>k0\<close> is \<open>kleuren[0]\<close> and \<open>f0\<close> is \<open>fuels[0]\<close>.
\<close>

definition backfilled :: "jsval \<Rightarrow> jsval \<Rightarrow> jsval \<Rightarrow> (jsstring \<times> jsval) list" where
  "backfilled basis k0 f0 =
     [(asc ''kleur'', js_or (opt_fld k0 ''eerste_kleur'') (js_or (fld basis ''eerste_kleur'') JNull)),
      (asc ''tweede_kleur'', js_or (opt_fld k0 ''tweede_kleur'') JNull),
      (asc ''brandstof'', js_or (opt_fld f0 ''omschrijving'') JNull)]"

text \<open>
  The summary of \<^verbatim>\<open>server.js\<close> and \<open>p0\<close>, which differ in their \<open>parseDate\<close> only.
\<close>

definition summary :: "(jsval \<Rightarrow> jsval option) \<Rightarrow> engine \<Rightarrow> jsstring \<Rightarrow> jsval \<Rightarrow> jsval \<Rightarrow> jsval \<Rightarrow> jsval option" where
  "summary parseDate E plate basis kleuren fuelsv = do {
     jaar \<leftarrow> bouwjaar E (fld basis ''datum_eerste_toelating'');
     toelating \<leftarrow> parseDate (fld basis ''datum_eerste_toelating'');
     apk \<leftarrow> parseDate (fld basis ''vervaldatum_apk'');
     k0 \<leftarrow> index0 kleuren;
     f0 \<leftarrow> index0 fuelsv;
     Some (JObj
       ([(asc ''kenteken'', JStr plate),
         textual basis ''merk'' ''merk'',
         textual basis ''handelsbenaming'' ''handelsbenaming'',
         textual basis ''voertuigsoort'' ''voertuigsoort'',
         (asc ''bouwjaar'', jaar),
         (asc ''datum_eerste_toelating'', toelating),
         (asc ''apk_vervaldatum'', apk)] @
        backfilled basis k0 f0 @
        [quantity E basis ''zitplaatsen'' ''aantal_zitplaatsen'',
         quantity E basis ''deuren'' ''aantal_deuren'',
         quantity E basis ''bpm_bruto'' ''bruto_bpm'',
         quantity E basis ''massa_ledig_kg'' ''massa_ledig_voertuig'',
         quantity E basis ''massa_rijklaar_kg'' ''massa_rijklaar'',
         quantity E basis ''trekgewicht_ongeremd_kg'' ''maximum_massa_trekken_ongeremd'',
         quantity E basis ''trekgewicht_geremd_kg'' ''maximum_trekken_massa_geremd'']))
   }"

text \<open>The summary of \<open>p1\<close>, where \<open>kleuren\<close> is the fetched value itself.\<close>

definition summary_p1 :: "engine \<Rightarrow> jsstring \<Rightarrow> jsval \<Rightarrow> jsval \<Rightarrow> jsval \<Rightarrow> jsval option" where
  "summary_p1 E plate basis kleuren fuelsv = do {
     jaar \<leftarrow> bouwjaar E (fld basis ''datum_eerste_toelating'');
     toelating \<leftarrow> parseDate_p E (fld basis ''datum_eerste_toelating'');
     apk \<leftarrow> parseDate_p E (fld basis ''vervaldatum_apk'');
     k0 \<leftarrow> index0 kleuren;
     f0 \<leftarrow> index0 fuelsv;
     Some (JObj
       ([(asc ''kenteken'', JStr plate),
         textual basis ''merk'' ''merk'',
         textual basis ''handelsbenaming'' ''handelsbenaming'',
         textual basis ''voertuigsoort'' ''voertuigsoort'',
         (asc ''bouwjaar'', jaar),
         (asc ''datum_eerste_toelating'', toelating),
         (asc ''apk_vervaldatum'', apk)] @
        backfilled basis k0 f0 @
        [quantity E basis ''zitplaatsen'' ''aantal_zitplaatsen'',
         quantity E basis ''deuren'' ''aantal_deuren'',
         quantity E basis ''massa_rijklaar_kg'' ''massa_rijklaar'']))
   }"

text \<open>\<open>details.basis\<close> of \<^verbatim>\<open>server.js\<close>.\<close>

definition details_basis_server :: "engine \<Rightarrow> jsval \<Rightarrow> jsval" where
  "details_basis_server E basis = JObj
     [textual basis ''voertuigsoort'' ''voertuigsoort'',
      textual basis ''merk'' ''merk'',
      textual basis ''handelsbenaming'' ''handelsbenaming'',
      textual basis ''inrichting'' ''inrichting'',
      quantity E basis ''catalogusprijs'' ''catalogusprijs'',
      quantity E basis ''cilinders'' ''aantal_cilinders'',
      quantity E basis ''cilinderinhoud_cc'' ''cilinderinhoud'',
      quantity E basis ''lengte_cm'' ''lengte'',
      quantity E basis ''breedte_cm'' ''breedte'',
      quantity E basis ''hoogte_cm'' ''hoogte_voertuig'',
      quantity E basis ''wielbasis_cm'' ''wielbasis'',
      textual basis ''eu_voertuigcategorie'' ''europese_voertuigcategorie'',
      textual basis ''zuinigheidsclassificatie'' ''zuinigheidsclassificatie'',
      textual basis ''type'' ''type'',
      textual basis ''variant'' ''variant'',
      textual basis ''uitvoering'' ''uitvoering'',
      textual basis ''typegoedkeuringsnummer'' ''typegoedkeuringsnummer'',
      (asc ''datum_eerste_toelating'', parseDate_server (fld basis ''datum_eerste_toelating'')),
      (asc ''datum_tenaamstelling'', parseDate_server (fld basis ''datum_tenaamstelling'')),
      (asc ''datum_eerste_tenaamstelling_in_nederland'',
         parseDate_server (fld basis ''datum_eerste_tenaamstelling_in_nederland'')),
      (asc ''apk_vervaldatum'', parseDate_server (fld basis ''vervaldatum_apk'')),
      textual basis ''wam_verzekerd'' ''wam_verzekerd'',
      textual basis ''export_indicator'' ''export_indicator'',
      textual basis ''openstaande_terugroepactie_indicator'' ''openstaande_terugroepactie_indicator'',
      textual basis ''taxi_indicator'' ''taxi_indicator'',
      textual basis ''tellerstandoordeel'' ''tellerstandoordeel'']"

text \<open>\<open>details.basis\<close> of \<open>p0\<close>.\<close>

definition details_basis_p0 :: "engine \<Rightarrow> jsval \<Rightarrow> jsval option" where
  "details_basis_p0 E basis = do {
     toelating \<leftarrow> parseDate_p E (fld basis ''datum_eerste_toelating'');
     tenaamstelling \<leftarrow> parseDate_p E (fld basis ''datum_tenaamstelling'');
     eerste \<leftarrow> parseDate_p E (fld basis ''datum_eerste_tenaamstelling_in_nederland'');
     apk \<leftarrow> parseDate_p E (fld basis ''vervaldatum_apk'');
     Some (JObj
       [textual basis ''voertuigsoort'' ''voertuigsoort'',
        textual basis ''merk'' ''merk'',
        textual basis ''handelsbenaming'' ''handelsbenaming'',
        textual basis ''inrichting'' ''inrichting'',
        quantity E basis ''catalogusprijs'' ''catalogusprijs'',
        quantity E basis ''aantal_cilinders'' ''aantal_cilinders'',
        quantity E basis ''cilinderinhoud_cc'' ''cilinderinhoud'',
        quantity E basis ''lengte_cm'' ''lengte'',
        quantity E basis ''breedte_cm'' ''breedte'',
        quantity E basis ''hoogte_cm'' ''hoogte_voertuig'',
        quantity E basis ''wielbasis_cm'' ''wielbasis'',
        textual basis ''eu_voertuigcategorie'' ''europese_voertuigcategorie'',
        textual basis ''zuinigheidsclassificatie'' ''zuinigheidsclassificatie'',
        textual basis ''type'' ''type'',
        textual basis ''variant'' ''variant'',
        textual basis ''uitvoering'' ''uitvoering'',
        (asc ''datum_eerste_toelating'', toelating),
        (asc ''datum_tenaamstelling'', tenaamstelling),
        (asc ''datum_eerste_tenaamstelling_in_nederland'', eerste),
        (asc ''apk_vervaldatum'', apk),
        textual basis ''wam_verzekerd'' ''wam_verzekerd'',
        textual basis ''export_indicator'' ''export_indicator'',
        textual basis ''openstaande_terugroepactie_indicator'' ''openstaande_terugroepactie_indicator'',
        textual basis ''taxi_indicator'' ''taxi_indicator'',
        textual basis ''tellerstandoordeel'' ''tellerstandoordeel''])
   }"

text \<open>\<open>details.basis\<close> of \<open>p1\<close>.\<close>

definition details_basis_p1 :: "engine \<Rightarrow> jsval \<Rightarrow> jsval" where
  "details_basis_p1 E basis = JObj
     [textual basis ''voertuigsoort'' ''voertuigsoort'',
      textual basis ''merk'' ''merk'',
      textual basis ''handelsbenaming'' ''handelsbenaming'',
      textual basis ''inrichting'' ''inrichting'',
      quantity E basis ''catalogusprijs'' ''catalogusprijs'',
      quantity E basis ''aantal_cilinders'' ''aantal_cilinders'',
      quantity E basis ''cilinderinhoud_cc'' ''cilinderinhoud'',
      quantity E basis ''lengte_cm'' ''lengte'',
      quantity E basis ''breedte_cm'' ''breedte'',
      quantity E basis ''hoogte_cm'' ''hoogte'',
      quantity E basis ''wielbasis_cm'' ''wielbasis'',
      textual basis ''eu_voertuigcategorie'' ''eu_voertuigcategorie'',
      textual basis ''type'' ''type'',
      textual basis ''variant'' ''variant'',
      textual basis ''uitvoering'' ''uitvoering'',
      textual basis ''wam_verzekerd'' ''wam_verzekerd'',
      textual basis ''taxi_indicator'' ''taxi_indicator'',
      textual basis ''openstaande_terugroepactie_indicator'' ''openstaande_terugroepactie_indicator'']"

text \<open>
  The body of a 200 response of \<^verbatim>\<open>server.js\<close> and \<open>p0\<close>: the lists are shaped, then the
  summary and the details are built; \<open>_raw\<close> echoes the fetched values. A TypeError on
  the way is \<open>None\<close>.
\<close>

definition raw_echo :: "jsval list \<Rightarrow> jsval" where
  "raw_echo vals = JObj
     [(asc ''basis'', vals ! 0),
      (asc ''brandstof'', vals ! 1),
      (asc ''kleur'', vals ! 2),
      (asc ''carrosserie'', vals ! 3),
      (asc ''carrosserie_specifiek'', vals ! 4),
      (asc ''assen'', vals ! 5)]"

definition body_server :: "engine \<Rightarrow> jsstring \<Rightarrow> jsval \<Rightarrow> jsval list \<Rightarrow> jsval option" where
  "body_server E plate basis vals = do {
     fuelsv \<leftarrow> fuels E (vals ! 1);
     kleuren \<leftarrow> js_map (vals ! 2) (on_row kleur_row);
     carrosserie \<leftarrow> js_map (vals ! 3) (on_row (carrosserie_row E));
     carrosserieSpecifiek \<leftarrow> js_map (vals ! 4) (on_row (carrosserie_row E));
     assen \<leftarrow> js_map (vals ! 5) (on_row (as_row E));
     summ \<leftarrow> summary (\<lambda>s. Some (parseDate_server s)) E plate basis kleuren fuelsv;
     Some (JObj
       [(asc ''summary'', summ),
        (asc ''details'', JObj
           [(asc ''basis'', details_basis_server E basis),
            (asc ''brandstoffen'', fuelsv),
            (asc ''kleuren'', kleuren),
            (asc ''carrosserie'', carrosserie),
            (asc ''carrosserie_specifiek'', carrosserieSpecifiek),
            (asc ''assen'', assen)]),
        (asc ''_raw'', raw_echo vals)])
   }"

definition body_p0 :: "engine \<Rightarrow> jsstring \<Rightarrow> jsval \<Rightarrow> jsval list \<Rightarrow> jsval option" where
  "body_p0 E plate basis vals = do {
     fuelsv \<leftarrow> fuels E (vals ! 1);
     kleuren \<leftarrow> js_map (vals ! 2) (on_row kleur_row);
     carrosserie \<leftarrow> js_map (vals ! 3) (on_row (carrosserie_row E));
     carrosserieSpecifiek \<leftarrow> js_map (vals ! 4) (on_row (carrosserie_row E));
     assen \<leftarrow> js_map (vals ! 5) (on_row (as_row E));
     summ \<leftarrow> summary (parseDate_p E) E plate basis kleuren fuelsv;
     det \<leftarrow> details_basis_p0 E basis;
     Some (JObj
       [(asc ''summary'', summ),
        (asc ''details'', JObj
           [(asc ''basis'', det),
            (asc ''brandstoffen'', fuelsv),
            (asc ''kleuren'', kleuren),
            (asc ''carrosserie'', carrosserie),
            (asc ''carrosserie_specifiek'', carrosserieSpecifiek),
            (asc ''assen'', assen)]),
        (asc ''_raw'', raw_echo vals)])
   }"

text \<open>
  The body of a 200 response of \<open>p1\<close>, from the first basis row, the three values the
  secondary fetches left in \<open>brand\<close>, \<open>kleuren\<close> and \<open>assen\<close>, and the warnings.
\<close>

definition body_p1 :: "engine \<Rightarrow> jsstring \<Rightarrow> jsval \<Rightarrow> jsval \<Rightarrow> jsval \<Rightarrow> jsval \<Rightarrow> jsstring list \<Rightarrow> jsval option" where
  "body_p1 E plate basis brand kleuren assen warnings = do {
     fuelsv \<leftarrow> fuels_p1 E brand;
     summ \<leftarrow> summary_p1 E plate basis kleuren fuelsv;
     kl \<leftarrow> js_map kleuren (on_row kleur_row);
     asn \<leftarrow> js_map assen (on_row (as_row E));
     Some (JObj
       [(asc ''summary'', summ),
        (asc ''details'', JObj
           [(asc ''basis'', details_basis_p1 E basis),
            (asc ''brandstoffen'', fuelsv),
            (asc ''kleuren'', kl),
            (asc ''assen'', asn),
            (asc ''warnings'', JArr (map JStr warnings))])])
   }"

section \<open>The handlers of \<open>GET /api/rdw\<close>\<close>

definition error_body :: "string \<Rightarrow> jsval" where
  "error_body msg = JObj [(asc ''error'', JStr (asc msg))]"

text \<open>\<^verbatim>\<open>{ error: 'RDW service fout', detail: String(e?.message || e) }\<close>\<close>

definition failure_body :: "jsstring \<Rightarrow> jsval" where
  "failure_body detail =
     JObj [(asc ''error'', JStr (asc ''RDW service fout'')), (asc ''detail'', JStr detail)]"

text \<open>\<open>r.json()\<close>: the body read and parsed.\<close>

definition r_json :: "engine \<Rightarrow> http_response \<Rightarrow> exn + jsval" where
  "r_json E r = (case body_text r of Inl e \<Rightarrow> Inl e | Inr t \<Rightarrow> json_parse E t)"

text \<open>
  \<^verbatim>\<open>server.js\<close>:
  \<^verbatim>\<open>const r = await fetch(url, { headers });\<close>
  \<^verbatim>\<open>if (!r.ok) throw new Error(`RDW ${r.status} ${r.statusText} for ${url}`);\<close>
  \<^verbatim>\<open>return r.json();\<close>
\<close>

definition q_server :: "engine \<Rightarrow> world \<Rightarrow> (jsstring \<times> jsstring) list \<Rightarrow> jsstring \<Rightarrow> exn + jsval" where
  "q_server E W hs u =
     (case upstream W \<lparr>url = u, headers = hs\<rparr> of
        Inl e \<Rightarrow> Inl e
      | Inr r \<Rightarrow>
          if \<not> ok r then
            Inl (Exn (asc ''Error'')
              (asc ''RDW '' @ dec_string (status r) @ asc '' '' @ statusText r @ asc '' for '' @ u))
          else r_json E r)"

text \<open>
  \<open>p0\<close> appends the first 200 code units of the body, when it can be read and is not
  empty, after a dash (U+2014) between two spaces.
\<close>

definition q_p0 :: "engine \<Rightarrow> world \<Rightarrow> (jsstring \<times> jsstring) list \<Rightarrow> jsstring \<Rightarrow> exn + jsval" where
  "q_p0 E W hs u =
     (case upstream W \<lparr>url = u, headers = hs\<rparr> of
        Inl e \<Rightarrow> Inl e
      | Inr r \<Rightarrow>
          if \<not> ok r then
            (let t = (case body_text r of Inl e \<Rightarrow> [] | Inr b \<Rightarrow> b) in
             Inl (Exn (asc ''Error'')
               (asc ''RDW '' @ dec_string (status r) @ asc '' '' @ statusText r @ asc '' for '' @ u @
                (if t \<noteq> [] then [0x20, 0x2014, 0x20] @ slice 0 200 t else []))))
          else r_json E r)"

text \<open>The six datasets of \<^verbatim>\<open>server.js\<close> and \<open>p0\<close>, in the order of the \<open>Promise.all\<close>.\<close>

definition dataset_urls :: "jsstring \<Rightarrow> jsstring list" where
  "dataset_urls plate = map (\<lambda>u. asc u @ plate)
     [''https://opendata.rdw.nl/resource/m9d7-ebf2.json?kenteken='',
      ''https://opendata.rdw.nl/resource/8ys7-d773.json?kenteken='',
      ''https://opendata.rdw.nl/resource/ihha-7xnj.json?kenteken='',
      ''https://opendata.rdw.nl/resource/vezc-m2t6.json?kenteken='',
      ''https://opendata.rdw.nl/resource/jhie-znh9.json?kenteken='',
      ''https://opendata.rdw.nl/resource/3huj-srit.json?kenteken='']"

text \<open>
  After the \<open>Promise.all\<close> of \<^verbatim>\<open>server.js\<close> and \<open>p0\<close>:
  \<^verbatim>\<open>const basis = basisArr?.[0] || {};\<close>
  \<^verbatim>\<open>if (!basis.merk && !basis.handelsbenaming) return res.status(404).json(...)\<close>
  then the body; an exception, also one of the shaping, is caught and answered with
  the status 500.
\<close>

definition answer :: "engine \<Rightarrow> (jsval \<Rightarrow> jsval list \<Rightarrow> jsval option) \<Rightarrow> exn + jsval list \<Rightarrow> response" where
  "answer E body settled_all =
     (case settled_all of
        Inl e \<Rightarrow> Response 500 (failure_body (exn_detail e))
      | Inr vals \<Rightarrow>
          (let basis = js_or (opt_index0 (vals ! 0)) (JObj []) in
           if \<not> truthy (fld basis ''merk'') \<and> \<not> truthy (fld basis ''handelsbenaming'')
           then Response 404 (error_body ''Geen voertuig gevonden voor kenteken.'')
           else case body basis vals of
                  None \<Rightarrow> Response 500 (failure_body (type_error_text E))
                | Some b \<Rightarrow> Response 200 b))"

text \<open>
  \<^verbatim>\<open>server.js\<close>: only an empty plate is refused (\<open>if (!plate)\<close>); the plate goes into the
  URLs as it is.
\<close>

definition handler_server :: "engine \<Rightarrow> world \<Rightarrow> qv option \<Rightarrow> outcome" where
  "handler_server E W q =
     (let plate = plate_server E q in
      if plate = [] then
        \<lparr>response = Response 400 (error_body ''kenteken ontbreekt''), requests = []\<rparr>
      else
        (let hs = request_headers (env W);
             urls = dataset_urls plate
         in \<lparr>response =
               answer E (body_server E plate)
                 (promise_all (map (\<lambda>u. (settled W u, q_server E W hs u)) urls)),
             requests = map (\<lambda>u. \<lparr>url = u, headers = hs\<rparr>) urls\<rparr>))"

definition handler_p0 :: "engine \<Rightarrow> world \<Rightarrow> qv option \<Rightarrow> outcome" where
  "handler_p0 E W q =
     (let plate = plate_p0 E q in
      if \<not> plate_ok plate then
        \<lparr>response = Response 400 (error_body ''Ongeldig kentekenformaat''), requests = []\<rparr>
      else
        (let hs = request_headers (env W);
             urls = dataset_urls plate
         in \<lparr>response =
               answer E (body_p0 E plate)
                 (promise_all (map (\<lambda>u. (settled W u, q_p0 E W hs u)) urls)),
             requests = map (\<lambda>u. \<lparr>url = u, headers = hs\<rparr>) urls\<rparr>))"

subsection \<open>\<open>p1\<close>: the basis first, then the others, each on its own\<close>

definition RDW_HOST :: string where
  "RDW_HOST = ''https://opendata.rdw.nl''"

definition RDW_basis :: string where
  "RDW_basis = ''/resource/m9d7-ebf2.json''"

definition RDW_brand :: string where
  "RDW_brand = ''/resource/8ys7-d773.json''"

definition RDW_kleuren :: string where
  "RDW_kleuren = ''/resource/ihha-7xnj.json''"

definition RDW_assen :: string where
  "RDW_assen = ''/resource/3huj-srit.json''"

text \<open>\<^verbatim>\<open>`${RDW_HOST}${path}?kenteken=${encodeURIComponent(plate)}`\<close>\<close>

definition rdw_url :: "engine \<Rightarrow> jsstring \<Rightarrow> string \<Rightarrow> jsstring" where
  "rdw_url E plate path =
     asc RDW_HOST @ asc path @ asc ''?kenteken='' @ encodeURIComponent E plate"

text \<open>
  \<^verbatim>\<open>const r = await fetch(url, { headers });\<close>
  \<^verbatim>\<open>const body = await r.text();\<close>
  \<^verbatim>\<open>if (!r.ok) { ...; throw new Error(body || `RDW ${r.status} ${r.statusText}`); }\<close>
  \<^verbatim>\<open>try { return JSON.parse(body); } catch (e) { ...; throw new Error('Kon RDW-antwoord niet parsen'); }\<close>
\<close>

definition fetchJSON :: "engine \<Rightarrow> world \<Rightarrow> (jsstring \<times> jsstring) list \<Rightarrow> jsstring \<Rightarrow> string \<Rightarrow> exn + jsval" where
  "fetchJSON E W hs plate path =
     (case upstream W \<lparr>url = rdw_url E plate path, headers = hs\<rparr> of
        Inl e \<Rightarrow> Inl e
      | Inr r \<Rightarrow>
          (case body_text r of
             Inl e \<Rightarrow> Inl e
           | Inr body \<Rightarrow>
               if \<not> ok r then
                 Inl (Exn (asc ''Error'')
                   (if body \<noteq> [] then body
                    else asc ''RDW '' @ dec_string (status r) @ asc '' '' @ statusText r))
               else
                 (case json_parse E body of
                    Inl e \<Rightarrow> Inl (Exn (asc ''Error'') (asc ''Kon RDW-antwoord niet parsen''))
                  | Inr v \<Rightarrow> Inr v)))"

text \<open>\<^verbatim>\<open>warnings.push(`assen: ${String(e.message).slice(0,140)}`)\<close>, for each label.\<close>

definition warning :: "string \<Rightarrow> exn \<Rightarrow> jsstring" where
  "warning label e = asc label @ asc '': '' @ slice 0 140 (exn_message e)"

text \<open>
  The three secondary fetches run at once; each failed one pushes its warning when it
  settles, so the warnings stand in the order of the settling times (the order of the
  array among equal times).
\<close>

fun failed :: "nat \<times> string \<times> (exn + jsval) \<Rightarrow> (nat \<times> jsstring) option" where
  "failed (t, label, Inl e) = Some (t, warning label e)"
| "failed (t, label, Inr v) = None"

definition warnings_of :: "(nat \<times> string \<times> (exn + jsval)) list \<Rightarrow> jsstring list" where
  "warnings_of rs = map snd (sort_key fst (List.map_filter failed rs))"

text \<open>
  \<^verbatim>\<open>try { brand = await fetchJSON(RDW.brand); } catch(e){ ... }\<close>: the variable keeps its
  initial \<open>[]\<close> when the fetch fails.
\<close>

fun fetched_or_empty :: "exn + jsval \<Rightarrow> jsval" where
  "fetched_or_empty (Inl e) = JArr []"
| "fetched_or_empty (Inr v) = v"

text \<open>
  \<^verbatim>\<open>try { const arr = await fetchJSON(RDW.basis); basis = arr?.[0] || null; }\<close>
  \<^verbatim>\<open>catch (e) { warnings.push(...); }\<close>, with \<open>basis\<close> initially \<open>null\<close>.
\<close>

fun first_basis :: "exn + jsval \<Rightarrow> jsval" where
  "first_basis (Inl e) = JNull"
| "first_basis (Inr arr) = js_or (opt_index0 arr) JNull"

definition handler_p1 :: "engine \<Rightarrow> world \<Rightarrow> qv option \<Rightarrow> outcome" where
  "handler_p1 E W q =
     (let plate = plate_p1 E q in
      if \<not> plate_ok plate then
        \<lparr>response = Response 400 (error_body ''Ongeldig kentekenformaat''), requests = []\<rparr>
      else
        (let hs = request_headers (env W);
             req = (\<lambda>path. \<lparr>url = rdw_url E plate path, headers = hs\<rparr>);
             basis = first_basis (fetchJSON E W hs plate RDW_basis)
         in if \<not> truthy basis then
              \<lparr>response = Response 404 (error_body ''Geen voertuig gevonden voor kenteken.''),
               requests = [req RDW_basis]\<rparr>
            else
              (let rb = fetchJSON E W hs plate RDW_brand;
                   rk = fetchJSON E W hs plate RDW_kleuren;
                   ra = fetchJSON E W hs plate RDW_assen;
                   warnings = warnings_of
                     [(settled W (rdw_url E plate RDW_brand), ''brandstof'', rb),
                      (settled W (rdw_url E plate RDW_kleuren), ''kleuren'', rk),
                      (settled W (rdw_url E plate RDW_assen), ''assen'', ra)]
               in \<lparr>response =
                     (case body_p1 E plate basis (fetched_or_empty rb) (fetched_or_empty rk)
                             (fetched_or_empty ra) warnings of
                        None \<Rightarrow> Unhandled
                      | Some b \<Rightarrow> Response 200 b),
                   requests = map req [RDW_basis, RDW_brand, RDW_kleuren, RDW_assen]\<rparr>)))"

section \<open>Reference definitions and examples\<close>

text \<open>
  The date rule in the words of the specification: a string of exactly eight code
  units gets a hyphen after its fourth and after its sixth code unit; every other
  value gives \<open>null\<close>.
\<close>

definition date_rule :: "jsval \<Rightarrow> jsval" where
  "date_rule s =
     (case s of
        JStr t \<Rightarrow>
          if length t = 8 then JStr (take 4 t @ [0x2D] @ take 2 (drop 4 t) @ [0x2D] @ drop 6 t)
          else JNull
      | _ \<Rightarrow> JNull)"

text \<open>The values that are neither arrays nor objects.\<close>

fun primitive :: "jsval \<Rightarrow> bool" where
  "primitive (JArr xs) = False"
| "primitive (JObj kvs) = False"
| "primitive v = True"

text \<open>
  An engine and a world for the examples. The examples use ASCII strings and the JSON
  texts \<open>[]\<close> and \<open>[{}]\<close> only, on which this engine does what every engine does. In
  the quiet world no token is configured and every fetch fails.
\<close>

definition sample_engine :: engine where
  "sample_engine =
     \<lparr>upper_nonascii = (\<lambda>s. s),
      num_to_string = (\<lambda>n. []),
      json_parse = (\<lambda>t.
        if t = asc ''[]'' then Inr (JArr [])
        else if t = asc ''[{}]'' then Inr (JArr [JObj []])
        else Inl (Exn (asc ''SyntaxError'') (asc ''Unexpected token''))),
      encodeURIComponent = (\<lambda>s. s),
      type_error_text = asc ''TypeError''\<rparr>"

definition quiet_world :: world where
  "quiet_world =
     \<lparr>env = Map.empty,
      upstream = (\<lambda>r. Inl (Exn (asc ''TypeError'') (asc ''fetch failed''))),
      settled = (\<lambda>u. 0)\<rparr>"


text \<open>The characters \<open>[A-Za-z0-9]\<close>.\<close>

definition alnum :: "code_unit \<Rightarrow> bool" where
  "alnum c \<longleftrightarrow>
     (0x41 \<le> c \<and> c \<le> 0x5A) \<or> (0x61 \<le> c \<and> c \<le> 0x7A) \<or> (0x30 \<le> c \<and> c \<le> 0x39)"

text \<open>
  A failed fetch in the words of the claims: a network error (the fetch rejects, or the
  body cannot be read), a status outside 200 to 299, or a body that does not parse.
\<close>

definition upstream_fails :: "engine \<Rightarrow> world \<Rightarrow> request \<Rightarrow> bool" where
  "upstream_fails E W r =
     (case upstream W r of
        Inl e \<Rightarrow> True
      | Inr resp \<Rightarrow>
          (case body_text resp of
             Inl e \<Rightarrow> True
           | Inr t \<Rightarrow> \<not> ok resp \<or> (case json_parse E t of Inl e \<Rightarrow> True | Inr v \<Rightarrow> False)))"

text \<open>
  A record set as the open-data service sends it: an array of rows, each row an object
  whose values are strings.
\<close>

definition record_row :: "jsval \<Rightarrow> bool" where
  "record_row x =
     (case x of
        JObj kvs \<Rightarrow> list_all (\<lambda>kv. case snd kv of JStr s \<Rightarrow> True | _ \<Rightarrow> False) kvs
      | _ \<Rightarrow> False)"

definition record_set :: "jsval \<Rightarrow> bool" where
  "record_set v = (case v of JArr xs \<Rightarrow> list_all record_row xs | _ \<Rightarrow> False)"

text \<open>A field that is absent or empty.\<close>

definition blank :: "jsval \<Rightarrow> bool" where
  "blank v \<longleftrightarrow> v = JUndefined \<or> v = JNull \<or> v = JStr []"

text \<open>
  The basis dataset yields a first record with no \<open>merk\<close> and no \<open>handelsbenaming\<close>.
\<close>

definition no_make_or_model :: "jsval \<Rightarrow> bool" where
  "no_make_or_model arr =
     (case arr of
        JArr (r # rs) \<Rightarrow> blank (fld r ''merk'') \<and> blank (fld r ''handelsbenaming'')
      | _ \<Rightarrow> False)"

text \<open>
  A world for the plate \<open>AB12CD\<close>: a token is configured, the basis dataset answers with
  one row without properties, the axle dataset cannot be reached, and the other datasets
  answer with no rows.
\<close>

definition found_world :: world where
  "found_world =
     \<lparr>env = [asc ''RDW_APP_TOKEN'' \<mapsto> asc ''t0ken''],
      upstream = (\<lambda>r.
        if url r = asc ''https://opendata.rdw.nl/resource/m9d7-ebf2.json?kenteken=AB12CD''
        then Inr \<lparr>status = 200, statusText = asc ''OK'', body_text = Inr (asc ''[{}]'')\<rparr>
        else if url r = asc ''https://opendata.rdw.nl/resource/3huj-srit.json?kenteken=AB12CD''
        then Inl (Exn (asc ''TypeError'') (asc ''fetch failed''))
        else Inr \<lparr>status = 200, statusText = asc ''OK'', body_text = Inr (asc ''[]'')\<rparr>),
      settled = (\<lambda>u. 0)\<rparr>"

text \<open>
  Two more worlds: one where every dataset answers with no rows, and one where every
  dataset answers with one row without properties.
\<close>

definition absent_world :: world where
  "absent_world =
     \<lparr>env = Map.empty,
      upstream = (\<lambda>r. Inr \<lparr>status = 200, statusText = asc ''OK'', body_text = Inr (asc ''[]'')\<rparr>),
      settled = (\<lambda>u. 0)\<rparr>"

definition blank_world :: world where
  "blank_world =
     \<lparr>env = Map.empty,
      upstream = (\<lambda>r. Inr \<lparr>status = 200, statusText = asc ''OK'', body_text = Inr (asc ''[{}]'')\<rparr>),
      settled = (\<lambda>u. 0)\<rparr>"

text \<open>
  The order of the numbers that are not \<open>NaN\<close>, and the place of a coerced sequence
  number in a sorted list: its own value, with \<open>null\<close>, \<open>NaN\<close> and 0 counted as \<open>d\<close>.
\<close>

fun num_le :: "jsnum \<Rightarrow> jsnum \<Rightarrow> bool" where
  "num_le NaN b = False"
| "num_le a NaN = False"
| "num_le NegInf b = True"
| "num_le (Fin x) (Fin y) = (x \<le> y)"
| "num_le (Fin x) PosInf = True"
| "num_le (Fin x) NegInf = False"
| "num_le PosInf PosInf = True"
| "num_le PosInf b = False"

fun placed :: "rat \<Rightarrow> jsval \<Rightarrow> jsnum" where
  "placed d (JNum n) = (if n = NaN \<or> n = Fin 0 then Fin d else n)"
| "placed d v = Fin d"

text \<open>Fuel rows with the sequence numbers 0, 1 and 2, and one without a number.\<close>

definition numbered :: "string \<Rightarrow> jsval" where
  "numbered n = JObj [(asc ''brandstof_volgnummer'', JStr (asc n))]"

text \<open>A basis row with two colours.\<close>

definition two_tone :: jsval where
  "two_tone = JObj
     [(asc ''merk'', JStr (asc ''VOLVO'')),
      (asc ''eerste_kleur'', JStr (asc ''ROOD'')),
      (asc ''tweede_kleur'', JStr (asc ''ZWART''))]"

text \<open>
  Two more worlds for the plate \<open>AB12CD\<close> in which the axle dataset cannot be reached.
  In the first every other dataset answers with no rows, the basis dataset too. In the
  second the basis dataset answers with one row, and the colour dataset answers 503 with
  the body \<open>assen\<close>.
\<close>

definition unknown_world :: world where
  "unknown_world =
     \<lparr>env = Map.empty,
      upstream = (\<lambda>r.
        if url r = asc ''https://opendata.rdw.nl/resource/3huj-srit.json?kenteken=AB12CD''
        then Inl (Exn (asc ''TypeError'') (asc ''fetch failed''))
        else Inr \<lparr>status = 200, statusText = asc ''OK'', body_text = Inr (asc ''[]'')\<rparr>),
      settled = (\<lambda>u. 0)\<rparr>"

definition echo_world :: world where
  "echo_world =
     \<lparr>env = Map.empty,
      upstream = (\<lambda>r.
        if url r = asc ''https://opendata.rdw.nl/resource/m9d7-ebf2.json?kenteken=AB12CD''
        then Inr \<lparr>status = 200, statusText = asc ''OK'', body_text = Inr (asc ''[{}]'')\<rparr>
        else if url r = asc ''https://opendata.rdw.nl/resource/ihha-7xnj.json?kenteken=AB12CD''
        then Inr \<lparr>status = 503, statusText = asc ''Service Unavailable'',
                  body_text = Inr (asc ''assen'')\<rparr>
        else if url r = asc ''https://opendata.rdw.nl/resource/3huj-srit.json?kenteken=AB12CD''
        then Inl (Exn (asc ''TypeError'') (asc ''fetch failed''))
        else Inr \<lparr>status = 200, statusText = asc ''OK'', body_text = Inr (asc ''[]'')\<rparr>),
      settled = (\<lambda>u. 0)\<rparr>"

section \<open>Properties\<close>

lemmas number_defs =
  StringToNumber_def trim_def is_ws_def radix_literal_def unsigned_literal_def
  unsigned_decimal_def is_digit_def scale10_def exponent_part_def radix_value_def hex_val_def

subsection \<open>Numeric coercion\<close>







subsection \<open>Dates\<close>

lemma parseDate_server_rule: "parseDate_server s = date_rule s"
  by (cases s) (auto simp: parseDate_server_def date_rule_def hyphenate_def slice_def)

lemma parseDate_p_primitive: "primitive s \<Longrightarrow> parseDate_p E s = Some (date_rule s)"
  by (cases s)
     (auto simp: parseDate_p_def date_rule_def hyphenate_def slice_def js_length_def fld_def)

lemma date_examples:
  "date_rule (JStr (asc ''20230115'')) = JStr (asc ''2023-01-15'')"
  "date_rule (JStr (asc ''99999999'')) = JStr (asc ''9999-99-99'')"
  "date_rule (JStr (asc ''2023'')) = JNull"
  "date_rule JUndefined = JNull"
  by (simp_all add: date_rule_def asc_def)

text \<open>
  Claim C6, as amended. The \<open>parseDate\<close> of \<^verbatim>\<open>server.js\<close> is the date rule on every
  value: the hyphenated string exactly for a string of eight code units, \<open>null\<close> for
  everything else, with no check of the calendar. The \<open>parseDate\<close> of \<open>p0\<close>, \<open>p1\<close> and
  \<open>p2\<close> is the date rule on every string and on \<open>undefined\<close>, \<open>null\<close>, numbers and
  booleans; what it does on arrays and objects is left open.
\<close>

theorem parseDate_rule:
  "parseDate_server s = date_rule s \<and>
   (primitive s \<longrightarrow> parseDate_p E s = Some (date_rule s)) \<and>
   (date_rule s \<noteq> JNull \<longleftrightarrow> (\<exists>t. s = JStr t \<and> length t = 8)) \<and>
   date_rule (JStr (asc ''20230115'')) = JStr (asc ''2023-01-15'') \<and>
   date_rule (JStr (asc ''99999999'')) = JStr (asc ''9999-99-99'') \<and>
   date_rule (JStr (asc ''2023'')) = JNull \<and>
   date_rule JUndefined = JNull"
  using parseDate_server_rule parseDate_p_primitive date_examples
  by (auto simp: date_rule_def split: jsval.splits)

theorem parseDate_rule_witness:
  "parseDate_server (JStr (asc ''20230115'')) = JStr (asc ''2023-01-15'') \<and>
   parseDate_p sample_engine (JStr (asc ''20230115'')) = Some (JStr (asc ''2023-01-15'')) \<and>
   parseDate_p sample_engine (JStr (asc ''2023'')) = Some JNull \<and>
   parseDate_p sample_engine JUndefined = Some JNull"
  using parseDate_rule [of "JStr (asc ''20230115'')" sample_engine]
        parseDate_rule [of "JStr (asc ''2023'')" sample_engine]
        parseDate_rule [of JUndefined sample_engine]
  by simp

text \<open>
  The claim as stated has \<open>null\<close> for every input that is no string of eight characters;
  the \<open>parseDate\<close> of \<open>p1\<close> turns an array of eight elements into a string.
\<close>

theorem parseDate_array_counterexample:
  "parseDate_p sample_engine (JArr (replicate 8 (JStr (asc ''1'')))) =
     Some (JStr (asc ''1,1,1,1-1,1-1,1'')) \<and>
   parseDate_p sample_engine (JArr (replicate 8 (JStr (asc ''1'')))) \<noteq> Some JNull"
  by (simp add: parseDate_p_def js_length_def hyphenate_def slice_def asc_def numeral_eq_Suc)

subsection \<open>Strings and objects\<close>

lemma unat_of_char: "unat (of_char c :: code_unit) = of_char c"
proof -
  have "(of_char c :: nat) < 256" by simp
  moreover have "(2::nat) ^ 16 = 65536" by simp
  ultimately have "(of_char c :: nat) < 2 ^ 16" by linarith
  then have "unat (of_nat (of_char c) :: code_unit) = of_char c"
    by (simp add: unat_of_nat)
  then show ?thesis by (simp add: of_nat_of_char)
qed

lemma of_char_word_eq: "(of_char a :: code_unit) = of_char b \<longleftrightarrow> a = b"
proof
  assume "(of_char a :: code_unit) = of_char b"
  then have "unat (of_char a :: code_unit) = unat (of_char b :: code_unit)" by simp
  then have "(of_char a :: nat) = of_char b" by (simp only: unat_of_char)
  then show "a = b" by simp
qed simp

lemma asc_eq: "asc a = asc b \<longleftrightarrow> a = b"
  unfolding asc_def
proof (induction a arbitrary: b)
  case Nil
  then show ?case by auto
next
  case (Cons x xs)
  then show ?case by (cases b) (auto simp: of_char_word_eq)
qed

lemma asc_Nil_iff: "asc s = [] \<longleftrightarrow> s = []"
  by (simp add: asc_def)

lemma fld_Cons: "fld (JObj ((asc k, v) # kvs)) n = (if n = k then v else fld (JObj kvs) n)"
  by (simp add: fld_def asc_eq)

lemma fld_Nil: "fld (JObj []) n = JUndefined"
  by (simp add: fld_def)

lemma fld_quantity: "fld (JObj (quantity E x k i # kvs)) n = (if n = k then coerce E (fld x i) else fld (JObj kvs) n)"
  by (simp add: quantity_def fld_Cons)

lemma fld_textual: "fld (JObj (textual x k i # kvs)) n = (if n = k then or_null (fld x i) else fld (JObj kvs) n)"
  by (simp add: textual_def fld_Cons)

lemmas fld_simps = fld_Cons fld_Nil fld_quantity fld_textual

subsection \<open>The plate\<close>

lemma toUpperCase_ascii: "list_all is_ascii s \<Longrightarrow> toUpperCase E s = map ascii_upper s"
  by (induction s) auto

lemma plate_char_upper: "plate_char (ascii_upper c) \<longleftrightarrow> alnum c"
  unfolding plate_char_def ascii_upper_def alnum_def
  by (simp; unat_arith)

lemma letters_not_ws: "0x41 \<le> d \<Longrightarrow> d \<le> 0x7A \<Longrightarrow> \<not> is_ws d"
proof -
  assume a: "0x41 \<le> d" and b: "d \<le> 0x7A"
  have "\<not> (0x2000 \<le> d)" using b by unat_arith
  moreover have "d \<noteq> 0x9" "d \<noteq> 0xA" "d \<noteq> 0xB" "d \<noteq> 0xC" "d \<noteq> 0xD" "d \<noteq> 0x20"
    using a by auto
  moreover have "d \<noteq> 0xA0" "d \<noteq> 0x1680" "d \<noteq> 0x2028" "d \<noteq> 0x2029" "d \<noteq> 0x202F"
    "d \<noteq> 0x205F" "d \<noteq> 0x3000" "d \<noteq> 0xFEFF"
    using b by auto
  ultimately show ?thesis by (simp add: is_ws_def)
qed

lemma upper_range: "0x61 \<le> c \<Longrightarrow> c \<le> 0x7A \<Longrightarrow> 0x41 \<le> c - 0x20 \<and> c - 0x20 \<le> 0x5A"
  for c :: code_unit
  by unat_arith

lemma is_ws_upper: "is_ws (ascii_upper c) \<longleftrightarrow> is_ws c"
proof (cases "0x61 \<le> c \<and> c \<le> 0x7A")
  case True
  then have "0x41 \<le> c - 0x20" "c - 0x20 \<le> 0x7A" by unat_arith+
  then have "\<not> is_ws (c - 0x20)" by (rule letters_not_ws)
  moreover have "0x41 \<le> c" using True by unat_arith
  then have "\<not> is_ws c" using True by (intro letters_not_ws) auto
  ultimately show ?thesis using True by (simp add: ascii_upper_def)
next
  case False
  then show ?thesis by (auto simp: ascii_upper_def)
qed










lemma hyphen_upper: "ascii_upper c = 0x2D \<longleftrightarrow> c = 0x2D"
  unfolding ascii_upper_def
  by (simp; unat_arith)


lemma strip_upper: "strip_hyphens (map ascii_upper s) = map ascii_upper (strip_hyphens s)"
  by (induction s) (auto simp: strip_hyphens_def hyphen_upper)

lemma trim_upper: "trim (map ascii_upper s) = map ascii_upper (trim s)"
proof -
  have d: "\<And>xs. dropWhile is_ws (map ascii_upper xs) = map ascii_upper (dropWhile is_ws xs)"
    by (simp add: dropWhile_map comp_def is_ws_upper)
  show ?thesis by (simp add: trim_def d rev_map)
qed


lemma plate_ok_upper:
  "plate_ok (map ascii_upper r) \<longleftrightarrow> r \<noteq> [] \<and> length r \<le> 8 \<and> list_all alnum r"
  by (cases r) (auto simp: plate_ok_def list_all_iff plate_char_upper)

lemma plate_p0_ascii:
  "list_all is_ascii (query_string q) \<Longrightarrow>
   plate_ok (plate_p0 E q) \<longleftrightarrow>
     strip_hyphens (query_string q) \<noteq> [] \<and> length (strip_hyphens (query_string q)) \<le> 8 \<and>
     list_all alnum (strip_hyphens (query_string q))"
  by (simp add: plate_p0_def toUpperCase_ascii strip_upper plate_ok_upper)

lemma plate_p1_ascii:
  "list_all is_ascii (query_string q) \<Longrightarrow>
   plate_ok (plate_p1 E q) \<longleftrightarrow>
     trim (strip_hyphens (query_string q)) \<noteq> [] \<and>
     length (trim (strip_hyphens (query_string q))) \<le> 8 \<and>
     list_all alnum (trim (strip_hyphens (query_string q)))"
  by (simp add: plate_p1_def toUpperCase_ascii strip_upper trim_upper plate_ok_upper)


lemma reject_p0:
  "\<not> plate_ok (plate_p0 E q) \<Longrightarrow>
   handler_p0 E W q =
     \<lparr>response = Response 400 (error_body ''Ongeldig kentekenformaat''), requests = []\<rparr>"
  by (simp add: handler_p0_def)

lemma reject_p1:
  "\<not> plate_ok (plate_p1 E q) \<Longrightarrow>
   handler_p1 E W q =
     \<lparr>response = Response 400 (error_body ''Ongeldig kentekenformaat''), requests = []\<rparr>"
  by (simp add: handler_p1_def)

lemma reject_server:
  "plate_server E q = [] \<Longrightarrow>
   handler_server E W q =
     \<lparr>response = Response 400 (error_body ''kenteken ontbreekt''), requests = []\<rparr>"
  by (simp add: handler_server_def)

lemma length_dataset_urls: "length (dataset_urls p) = 6"
  by (simp add: dataset_urls_def)

lemma requests_server:
  "plate_server E q \<noteq> [] \<Longrightarrow>
   requests (handler_server E W q) =
     map (\<lambda>u. \<lparr>url = u, headers = request_headers (env W)\<rparr>) (dataset_urls (plate_server E q))"
  by (simp add: handler_server_def Let_def)


lemma summary_kenteken:
  "summary pd E plate basis k f = Some s \<Longrightarrow> fld s ''kenteken'' = JStr plate"
  by (clarsimp simp: summary_def bind_eq_Some_conv fld_simps)




lemma body_server_kenteken:
  "body_server E plate basis vals = Some b \<Longrightarrow> fld (fld b ''summary'') ''kenteken'' = JStr plate"
  by (clarsimp simp: body_server_def bind_eq_Some_conv fld_simps summary_kenteken)

lemma answer_200:
  "answer E body r = Response 200 b \<Longrightarrow> \<exists>basis vals. body basis vals = Some b"
  by (auto simp: answer_def Let_def split: sum.splits if_splits option.splits)



lemma server_200:
  "response (handler_server E W q) = Response 200 b \<Longrightarrow>
   \<exists>basis vals. body_server E (plate_server E q) basis vals = Some b"
  by (auto simp: handler_server_def Let_def split: if_splits dest: answer_200)











text \<open>
  Claim C3, as amended. In \<open>p0\<close> and \<open>p1\<close> a request whose normalised plate does not
  match \<open>^[A-Z0-9]{1,8}$\<close> is answered 400 and no request goes upstream. For an ASCII
  input that is, in \<open>p0\<close>, exactly when the input without its hyphens is empty, longer
  than eight characters or holds a character outside \<open>[A-Za-z0-9]\<close>; in \<open>p1\<close> the same
  holds of the input without its hyphens and without the white space at its ends.
  \<^verbatim>\<open>server.js\<close> answers 400 only when the normalised plate is empty; every other plate
  goes upstream in six requests.
\<close>

theorem invalid_plate_rejected:
  "(\<not> plate_ok (plate_p0 E q) \<longrightarrow>
      handler_p0 E W q =
        \<lparr>response = Response 400 (error_body ''Ongeldig kentekenformaat''), requests = []\<rparr>) \<and>
   (\<not> plate_ok (plate_p1 E q) \<longrightarrow>
      handler_p1 E W q =
        \<lparr>response = Response 400 (error_body ''Ongeldig kentekenformaat''), requests = []\<rparr>) \<and>
   (list_all is_ascii (query_string q) \<longrightarrow>
      (plate_ok (plate_p0 E q) \<longleftrightarrow>
         strip_hyphens (query_string q) \<noteq> [] \<and>
         length (strip_hyphens (query_string q)) \<le> 8 \<and>
         list_all alnum (strip_hyphens (query_string q)))) \<and>
   (list_all is_ascii (query_string q) \<longrightarrow>
      (plate_ok (plate_p1 E q) \<longleftrightarrow>
         trim (strip_hyphens (query_string q)) \<noteq> [] \<and>
         length (trim (strip_hyphens (query_string q))) \<le> 8 \<and>
         list_all alnum (trim (strip_hyphens (query_string q))))) \<and>
   (plate_server E q = [] \<longrightarrow>
      handler_server E W q =
        \<lparr>response = Response 400 (error_body ''kenteken ontbreekt''), requests = []\<rparr>) \<and>
   (plate_server E q \<noteq> [] \<longrightarrow> length (requests (handler_server E W q)) = 6)"
  using reject_p0 [of E q W] reject_p1 [of E q W] reject_server [of E q W]
        plate_p0_ascii [of q E] plate_p1_ascii [of q E]
  by (simp add: requests_server length_dataset_urls)

theorem invalid_plate_rejected_witness:
  "\<not> plate_ok (plate_p0 sample_engine (Some (QStr (asc ''A!'')))) \<and>
   handler_p0 sample_engine quiet_world (Some (QStr (asc ''A!''))) =
     \<lparr>response = Response 400 (error_body ''Ongeldig kentekenformaat''), requests = []\<rparr> \<and>
   handler_p1 sample_engine quiet_world (Some (QStr (asc ''A!''))) =
     \<lparr>response = Response 400 (error_body ''Ongeldig kentekenformaat''), requests = []\<rparr> \<and>
   handler_server sample_engine quiet_world None =
     \<lparr>response = Response 400 (error_body ''kenteken ontbreekt''), requests = []\<rparr>"
proof -
  have a: "\<not> plate_ok (plate_p0 sample_engine (Some (QStr (asc ''A!''))))"
    by (simp add: plate_p0_def query_string_def strip_hyphens_def asc_def is_ascii_def
        ascii_upper_def plate_ok_def plate_char_def)
  have b: "\<not> plate_ok (plate_p1 sample_engine (Some (QStr (asc ''A!''))))"
    by (simp add: plate_p1_def query_string_def strip_hyphens_def asc_def is_ascii_def
        ascii_upper_def plate_ok_def plate_char_def trim_def is_ws_def)
  have c: "plate_server sample_engine None = []"
    by (simp add: plate_server_def query_string_def strip_hyphens_def)
  show ?thesis
    using a b c
      invalid_plate_rejected [of sample_engine "Some (QStr (asc ''A!''))" quiet_world]
      invalid_plate_rejected [of sample_engine None quiet_world]
    by simp
qed

text \<open>
  The claim as stated has a 400 and no remote call for every plate with a character
  outside \<open>[A-Za-z0-9]\<close>. \<^verbatim>\<open>server.js\<close> sends six requests for the plate \<open>A!\<close>; in the
  quiet world they all fail, and the answer is 500.
\<close>

theorem unvalidated_plate_counterexample:
  "response (handler_server sample_engine quiet_world (Some (QStr (asc ''A!'')))) =
     Response 500 (failure_body (asc ''fetch failed'')) \<and>
   length (requests (handler_server sample_engine quiet_world (Some (QStr (asc ''A!''))))) = 6"
  by (simp add: handler_server_def plate_server_def query_string_def strip_hyphens_def asc_def
      is_ascii_def ascii_upper_def quiet_world_def q_server_def dataset_urls_def
      promise_all_def List.map_filter_def answer_def Let_def)

subsection \<open>The handler of \<open>p1\<close>\<close>

lemma fetchJSON_fails_iff:
  "(\<exists>e. fetchJSON E W hs plate path = Inl e) \<longleftrightarrow>
   upstream_fails E W \<lparr>url = rdw_url E plate path, headers = hs\<rparr>"
  by (auto simp: fetchJSON_def upstream_fails_def split: sum.splits)

lemma p1_no_basis:
  "plate_ok (plate_p1 E q) \<Longrightarrow>
   \<not> truthy (first_basis (fetchJSON E W (request_headers (env W)) (plate_p1 E q) RDW_basis)) \<Longrightarrow>
   handler_p1 E W q =
     \<lparr>response = Response 404 (error_body ''Geen voertuig gevonden voor kenteken.''),
      requests = [\<lparr>url = rdw_url E (plate_p1 E q) RDW_basis, headers = request_headers (env W)\<rparr>]\<rparr>"
  by (simp add: handler_p1_def Let_def)

lemma p1_with_basis:
  "plate_ok (plate_p1 E q) \<Longrightarrow>
   truthy (first_basis (fetchJSON E W (request_headers (env W)) (plate_p1 E q) RDW_basis)) \<Longrightarrow>
   response (handler_p1 E W q) =
     (case body_p1 E (plate_p1 E q)
        (first_basis (fetchJSON E W (request_headers (env W)) (plate_p1 E q) RDW_basis))
        (fetched_or_empty (fetchJSON E W (request_headers (env W)) (plate_p1 E q) RDW_brand))
        (fetched_or_empty (fetchJSON E W (request_headers (env W)) (plate_p1 E q) RDW_kleuren))
        (fetched_or_empty (fetchJSON E W (request_headers (env W)) (plate_p1 E q) RDW_assen))
        (warnings_of
           [(settled W (rdw_url E (plate_p1 E q) RDW_brand), ''brandstof'',
               fetchJSON E W (request_headers (env W)) (plate_p1 E q) RDW_brand),
            (settled W (rdw_url E (plate_p1 E q) RDW_kleuren), ''kleuren'',
               fetchJSON E W (request_headers (env W)) (plate_p1 E q) RDW_kleuren),
            (settled W (rdw_url E (plate_p1 E q) RDW_assen), ''assen'',
               fetchJSON E W (request_headers (env W)) (plate_p1 E q) RDW_assen)]) of
        None \<Rightarrow> Unhandled
      | Some b \<Rightarrow> Response 200 b)"
  by (simp add: handler_p1_def Let_def)

lemma p1_statuses:
  "response (handler_p1 E W q) = Response n b \<Longrightarrow> n = 200 \<or> n = 400 \<or> n = 404"
  by (auto simp: handler_p1_def Let_def split: if_splits option.splits)

lemma p1_404_iff:
  assumes "plate_ok (plate_p1 E q)"
  shows "response (handler_p1 E W q) = Response 404 (error_body ''Geen voertuig gevonden voor kenteken.'') \<longleftrightarrow>
         \<not> truthy (first_basis (fetchJSON E W (request_headers (env W)) (plate_p1 E q) RDW_basis))"
  using assms by (auto simp: handler_p1_def Let_def split: option.splits)
lemma record_row_fld: "record_row b \<Longrightarrow> fld b n = JUndefined \<or> (\<exists>s. fld b n = JStr s)"
proof -
  assume r: "record_row b"
  then obtain kvs where b: "b = JObj kvs"
    by (cases b) (auto simp: record_row_def)
  show ?thesis
  proof (cases "map_of kvs (asc n)")
    case None
    then show ?thesis by (simp add: b fld_def)
  next
    case (Some v)
    then have "(asc n, v) \<in> set kvs" by (rule map_of_SomeD)
    with r b have "case v of JStr s \<Rightarrow> True | _ \<Rightarrow> False"
      by (auto simp: record_row_def list_all_iff)
    then obtain s where "v = JStr s" by (cases v) auto
    with Some show ?thesis by (simp add: b fld_def)
  qed
qed

lemma record_row_truthy: "record_row b \<Longrightarrow> truthy b \<and> \<not> nullish b"
  by (cases b) (auto simp: record_row_def)

lemma record_row_primitive: "record_row b \<Longrightarrow> primitive (fld b n)"
  using record_row_fld [of b n] by auto

lemma bouwjaar_row: "record_row b \<Longrightarrow> \<exists>y. bouwjaar E (fld b n) = Some y"
  using record_row_fld [of b n] by (auto simp: bouwjaar_def)

lemma parseDate_row: "record_row b \<Longrightarrow> parseDate_p E (fld b n) = Some (date_rule (fld b n))"
  by (simp add: record_row_primitive parseDate_p_primitive)

lemma those_on_row:
  "list_all (\<lambda>x. \<not> nullish x) xs \<Longrightarrow> those (map (on_row f) xs) = Some (map f xs)"
  by (induction xs) (auto simp: on_row_def)

lemma record_set_rows:
  "record_set v \<Longrightarrow> \<exists>xs. v = JArr xs \<and> list_all (\<lambda>x. \<not> nullish x) xs"
  by (cases v) (auto simp: record_set_def list_all_iff record_row_truthy)

lemma js_map_rows:
  "record_set v \<Longrightarrow> \<exists>xs. v = JArr xs \<and> js_map v (on_row f) = Some (JArr (map f xs))"
  using record_set_rows [of v] by (auto simp: js_map_def js_or_def those_on_row)

lemma js_map_empty: "js_map (JArr []) (on_row f) = Some (JArr [])"
  by (simp add: js_map_def js_or_def)

lemma record_set_empty: "record_set (JArr [])"
  by (simp add: record_set_def)

lemma fuels_p1_rows: "record_set v \<Longrightarrow> \<exists>ys. fuels_p1 E v = Some (JArr ys)"
  using js_map_rows [of v "fuel_row_p1 E"] by (auto simp: fuels_p1_def)

lemma index0_array: "\<exists>y. index0 (JArr ys) = Some y"
  by (simp add: index0_def)

lemma summary_p1_some:
  assumes "record_row b"
  shows "\<exists>s. summary_p1 E plate b (JArr ks) (JArr fs) = Some s"
proof -
  obtain j where j: "bouwjaar E (fld b ''datum_eerste_toelating'') = Some j"
    using bouwjaar_row [OF assms] by blast
  obtain k0 where k: "index0 (JArr ks) = Some k0" using index0_array by blast
  obtain f0 where f: "index0 (JArr fs) = Some f0" using index0_array by blast
  show ?thesis
    by (simp add: summary_p1_def j k f parseDate_row [OF assms])
qed

lemma body_p1_some:
  assumes b: "record_row b" and br: "record_set brand" and kl: "record_set kleuren"
  shows "\<exists>body. body_p1 E plate b brand kleuren (JArr []) ws = Some body \<and>
           fld (fld body ''details'') ''assen'' = JArr [] \<and>
           fld (fld body ''details'') ''warnings'' = JArr (map JStr ws)"
proof -
  obtain fs where fs: "fuels_p1 E brand = Some (JArr fs)"
    using fuels_p1_rows [OF br] by blast
  obtain ks where ks: "kleuren = JArr ks" "js_map kleuren (on_row kleur_row) = Some (JArr (map kleur_row ks))"
    using js_map_rows [OF kl] by blast
  obtain s where s: "summary_p1 E plate b (JArr ks) (JArr fs) = Some s"
    using summary_p1_some [OF b] by blast
  show ?thesis
    using fs ks s by (simp add: body_p1_def js_map_empty fld_simps)
qed

lemma prefix_axle_warning: "prefix (asc ''assen: '') (warning ''assen'' e)"
  by (simp add: warning_def asc_def)

lemma prefix_colour_warning: "\<not> prefix (asc ''assen: '') (warning ''kleuren'' e)"
  by (simp add: warning_def asc_def)

lemma axle_warning_text: "warning ''assen'' e = asc ''assen: '' @ take 140 (exn_message e)"
  by (simp add: warning_def slice_def asc_def)

lemma warnings_axle_only:
  "warnings_of [(t1, l1, Inr a), (t2, l2, Inr b), (t3, ''assen'', Inl e)] = [warning ''assen'' e]"
  by (simp add: warnings_of_def List.map_filter_def)

lemma warnings_axle_and_colour:
  "filter (prefix (asc ''assen: ''))
     (warnings_of [(t1, l1, Inr a), (t2, ''kleuren'', Inl e'), (t3, ''assen'', Inl e)]) =
   [warning ''assen'' e]"
  by (simp add: warnings_of_def List.map_filter_def prefix_axle_warning prefix_colour_warning)

lemma p1_partial:
  assumes hs: "hs = request_headers (env W)" and plate: "plate = plate_p1 E q"
    and ok: "plate_ok plate"
    and basis: "fetchJSON E W hs plate RDW_basis = Inr (JArr (b # bs))" "record_row b"
    and fuel: "fetchJSON E W hs plate RDW_brand = Inr brand" "record_set brand"
    and colour: "\<forall>v. fetchJSON E W hs plate RDW_kleuren = Inr v \<longrightarrow> record_set v"
    and axle: "fetchJSON E W hs plate RDW_assen = Inl e"
  shows "\<exists>body ws.
           response (handler_p1 E W q) = Response 200 body \<and>
           fld (fld body ''details'') ''assen'' = JArr [] \<and>
           fld (fld body ''details'') ''warnings'' = JArr (map JStr ws) \<and>
           filter (prefix (asc ''assen: '')) ws = [warning ''assen'' e] \<and>
           ((\<exists>v. fetchJSON E W hs plate RDW_kleuren = Inr v) \<longrightarrow> ws = [warning ''assen'' e])"
proof -
  define rk where "rk = fetchJSON E W hs plate RDW_kleuren"
  define ws where "ws = warnings_of
     [(settled W (rdw_url E plate RDW_brand), ''brandstof'', fetchJSON E W hs plate RDW_brand),
      (settled W (rdw_url E plate RDW_kleuren), ''kleuren'', rk),
      (settled W (rdw_url E plate RDW_assen), ''assen'', fetchJSON E W hs plate RDW_assen)]"
  have first: "first_basis (fetchJSON E W hs plate RDW_basis) = b"
    using basis record_row_truthy [of b] by (simp add: opt_index0_def index0_def js_or_def)
  have kl: "record_set (fetched_or_empty rk)"
    using colour by (cases rk) (auto simp: rk_def record_set_empty)
  obtain body where body:
    "body_p1 E plate b brand (fetched_or_empty rk) (JArr []) ws = Some body"
    "fld (fld body ''details'') ''assen'' = JArr []"
    "fld (fld body ''details'') ''warnings'' = JArr (map JStr ws)"
    using body_p1_some [OF basis(2) fuel(2) kl] by blast
  have resp: "response (handler_p1 E W q) = Response 200 body"
    using ok basis(2) record_row_truthy [of b] first body(1) fuel(1) axle
    by (simp add: p1_with_basis hs [symmetric] plate [symmetric] rk_def ws_def)
  have w1: "filter (prefix (asc ''assen: '')) ws = [warning ''assen'' e]"
    by (cases rk)
       (simp_all add: ws_def fuel(1) axle warnings_axle_only warnings_axle_and_colour
          prefix_axle_warning)
  have w2: "(\<exists>v. rk = Inr v) \<longrightarrow> ws = [warning ''assen'' e]"
    by (auto simp: ws_def fuel(1) axle warnings_axle_only)
  show ?thesis using resp body(2,3) w1 w2 unfolding rk_def by blast
qed
lemma asc_append: "asc a @ asc b = asc (a @ b)"
  by (simp add: asc_def)

lemma plate_AB12CD:
  "plate_p1 E (Some (QStr (asc ''AB12CD''))) = asc ''AB12CD''"
  "plate_p0 E (Some (QStr (asc ''AB12CD''))) = asc ''AB12CD''"
  "plate_server E (Some (QStr (asc ''AB12CD''))) = asc ''AB12CD''"
  "plate_ok (asc ''AB12CD'')"
  by (simp_all add: plate_server_def plate_p0_def plate_p1_def query_string_def asc_def
      strip_hyphens_def is_ascii_def ascii_upper_def trim_def is_ws_def plate_ok_def plate_char_def)

lemma sample_urls:
  "rdw_url sample_engine (asc ''AB12CD'') RDW_basis =
     asc ''https://opendata.rdw.nl/resource/m9d7-ebf2.json?kenteken=AB12CD''"
  "rdw_url sample_engine (asc ''AB12CD'') RDW_brand =
     asc ''https://opendata.rdw.nl/resource/8ys7-d773.json?kenteken=AB12CD''"
  "rdw_url sample_engine (asc ''AB12CD'') RDW_kleuren =
     asc ''https://opendata.rdw.nl/resource/ihha-7xnj.json?kenteken=AB12CD''"
  "rdw_url sample_engine (asc ''AB12CD'') RDW_assen =
     asc ''https://opendata.rdw.nl/resource/3huj-srit.json?kenteken=AB12CD''"
  by (simp_all add: rdw_url_def RDW_HOST_def RDW_basis_def RDW_brand_def RDW_kleuren_def
      RDW_assen_def sample_engine_def asc_append)

lemma sample_parse:
  "json_parse sample_engine (asc ''[]'') = Inr (JArr [])"
  "json_parse sample_engine (asc ''[{}]'') = Inr (JArr [JObj []])"
  by (simp_all add: sample_engine_def asc_eq)

lemma found_fetches:
  "fetchJSON sample_engine found_world hs (asc ''AB12CD'') RDW_basis = Inr (JArr [JObj []])"
  "fetchJSON sample_engine found_world hs (asc ''AB12CD'') RDW_brand = Inr (JArr [])"
  "fetchJSON sample_engine found_world hs (asc ''AB12CD'') RDW_kleuren = Inr (JArr [])"
  "fetchJSON sample_engine found_world hs (asc ''AB12CD'') RDW_assen =
     Inl (Exn (asc ''TypeError'') (asc ''fetch failed''))"
  by (simp_all add: fetchJSON_def sample_urls sample_parse found_world_def asc_eq ok_def)

lemma record_row_blank: "record_row (JObj [])"
  by (simp add: record_row_def)

text \<open>
  Claim C1, as amended. In \<open>p1\<close>, when the plate is valid, the basis fetch gives a
  record set with a first row, the fuel fetch gives a record set, the colour fetch fails
  or gives a record set, and the axle fetch throws, the answer is 200, \<open>details.assen\<close>
  is the empty list, and exactly one entry of \<open>details.warnings\<close> carries the label
  \<open>assen\<close>: the text \<open>assen: \<close> followed by the first 140 code units of the message
  of the error. It is the only warning when the colour fetch did not fail too.
\<close>

theorem axle_failure_tolerated:
  assumes "hs = request_headers (env W)" and "plate = plate_p1 E q" and "plate_ok plate"
    and "fetchJSON E W hs plate RDW_basis = Inr (JArr (b # bs))" and "record_row b"
    and "fetchJSON E W hs plate RDW_brand = Inr brand" and "record_set brand"
    and "\<forall>v. fetchJSON E W hs plate RDW_kleuren = Inr v \<longrightarrow> record_set v"
    and "fetchJSON E W hs plate RDW_assen = Inl e"
  shows "\<exists>body ws m.
           response (handler_p1 E W q) = Response 200 body \<and>
           fld (fld body ''details'') ''assen'' = JArr [] \<and>
           fld (fld body ''details'') ''warnings'' = JArr (map JStr ws) \<and>
           m = take 140 (exn_message e) \<and> length m \<le> 140 \<and>
           filter (prefix (asc ''assen: '')) ws = [asc ''assen: '' @ m] \<and>
           sublist (asc ''assen'') (asc ''assen: '' @ m) \<and>
           ((\<exists>v. fetchJSON E W hs plate RDW_kleuren = Inr v) \<longrightarrow> ws = [asc ''assen: '' @ m])"
proof -
  obtain body ws where r:
    "response (handler_p1 E W q) = Response 200 body"
    "fld (fld body ''details'') ''assen'' = JArr []"
    "fld (fld body ''details'') ''warnings'' = JArr (map JStr ws)"
    "filter (prefix (asc ''assen: '')) ws = [warning ''assen'' e]"
    "(\<exists>v. fetchJSON E W hs plate RDW_kleuren = Inr v) \<longrightarrow> ws = [warning ''assen'' e]"
    using p1_partial [OF assms] by blast
  have "prefix (asc ''assen'') (asc ''assen: '' @ take 140 (exn_message e))"
    by (simp add: asc_def)
  then have s: "sublist (asc ''assen'') (asc ''assen: '' @ take 140 (exn_message e))"
    by (rule prefix_imp_sublist)
  have l: "length (take 140 (exn_message e)) \<le> 140" by simp
  show ?thesis
    using r s l unfolding axle_warning_text by blast
qed

theorem axle_failure_tolerated_witness:
  "plate_ok (plate_p1 sample_engine (Some (QStr (asc ''AB12CD'')))) \<and>
   record_row (JObj []) \<and> record_set (JArr []) \<and>
   fetchJSON sample_engine found_world (request_headers (env found_world)) (asc ''AB12CD'')
     RDW_assen = Inl (Exn (asc ''TypeError'') (asc ''fetch failed'')) \<and>
   (\<exists>body. response (handler_p1 sample_engine found_world (Some (QStr (asc ''AB12CD'')))) =
              Response 200 body \<and>
           fld (fld body ''details'') ''assen'' = JArr [] \<and>
           fld (fld body ''details'') ''warnings'' = JArr [JStr (asc ''assen: fetch failed'')])"
proof -
  have w: "asc ''assen: '' @ take 140 (exn_message (Exn (asc ''TypeError'') (asc ''fetch failed''))) =
           asc ''assen: fetch failed''"
    by (simp add: asc_def)
  have "\<exists>body ws m.
           response (handler_p1 sample_engine found_world (Some (QStr (asc ''AB12CD'')))) =
             Response 200 body \<and>
           fld (fld body ''details'') ''assen'' = JArr [] \<and>
           fld (fld body ''details'') ''warnings'' = JArr (map JStr ws) \<and>
           m = take 140 (exn_message (Exn (asc ''TypeError'') (asc ''fetch failed''))) \<and>
           length m \<le> 140 \<and>
           filter (prefix (asc ''assen: '')) ws = [asc ''assen: '' @ m] \<and>
           sublist (asc ''assen'') (asc ''assen: '' @ m) \<and>
           ((\<exists>v. fetchJSON sample_engine found_world (request_headers (env found_world))
                    (asc ''AB12CD'') RDW_kleuren = Inr v) \<longrightarrow> ws = [asc ''assen: '' @ m])"
    by (rule axle_failure_tolerated
          [of "request_headers (env found_world)" found_world "asc ''AB12CD''" sample_engine
              "Some (QStr (asc ''AB12CD''))" "JObj []" "[]" "JArr []"])
       (simp_all add: plate_AB12CD found_fetches record_row_blank record_set_empty)
  then show ?thesis
    using w by (auto simp: plate_AB12CD found_fetches record_row_blank record_set_empty)
qed

lemma unknown_fetches:
  "fetchJSON sample_engine unknown_world hs (asc ''AB12CD'') RDW_basis = Inr (JArr [])"
  "fetchJSON sample_engine unknown_world hs (asc ''AB12CD'') RDW_brand = Inr (JArr [])"
  "fetchJSON sample_engine unknown_world hs (asc ''AB12CD'') RDW_assen =
     Inl (Exn (asc ''TypeError'') (asc ''fetch failed''))"
  by (simp_all add: fetchJSON_def sample_urls sample_parse unknown_world_def asc_eq ok_def)

lemma echo_fetches:
  "fetchJSON sample_engine echo_world hs (asc ''AB12CD'') RDW_basis = Inr (JArr [JObj []])"
  "fetchJSON sample_engine echo_world hs (asc ''AB12CD'') RDW_brand = Inr (JArr [])"
  "fetchJSON sample_engine echo_world hs (asc ''AB12CD'') RDW_kleuren =
     Inl (Exn (asc ''Error'') (asc ''assen''))"
  "fetchJSON sample_engine echo_world hs (asc ''AB12CD'') RDW_assen =
     Inl (Exn (asc ''TypeError'') (asc ''fetch failed''))"
  by (simp_all add: fetchJSON_def sample_urls sample_parse echo_world_def asc_eq ok_def
      asc_Nil_iff)

lemma echo_warnings:
  "warnings_of
     [(0, ''brandstof'', Inr (JArr [])),
      (0, ''kleuren'', Inl (Exn (asc ''Error'') (asc ''assen''))),
      (0, ''assen'', Inl (Exn (asc ''TypeError'') (asc ''fetch failed'')))] =
   [asc ''kleuren: assen'', asc ''assen: fetch failed'']"
  by (simp add: warnings_of_def List.map_filter_def warning_def slice_def asc_def)

lemma echo_answer:
  "\<exists>body. response (handler_p1 sample_engine echo_world (Some (QStr (asc ''AB12CD'')))) =
            Response 200 body \<and>
          fld (fld body ''details'') ''warnings'' =
            JArr [JStr (asc ''kleuren: assen''), JStr (asc ''assen: fetch failed'')]"
proof -
  let ?ws = "[asc ''kleuren: assen'', asc ''assen: fetch failed'']"
  obtain body where body:
    "body_p1 sample_engine (asc ''AB12CD'') (JObj []) (JArr []) (JArr []) (JArr []) ?ws = Some body"
    "fld (fld body ''details'') ''warnings'' = JArr (map JStr ?ws)"
    using body_p1_some [OF record_row_blank record_set_empty record_set_empty] by blast
  have t: "truthy (js_or (opt_index0 (JArr [JObj []])) JNull)"
    "js_or (opt_index0 (JArr [JObj []])) JNull = JObj []"
    by (simp_all add: opt_index0_def index0_def js_or_def)
  have z: "\<And>u. settled echo_world u = 0" by (simp add: echo_world_def)
  have "response (handler_p1 sample_engine echo_world (Some (QStr (asc ''AB12CD'')))) =
        Response 200 body"
    using body(1) t
      p1_with_basis [of sample_engine "Some (QStr (asc ''AB12CD''))" echo_world]
    by (simp add: plate_AB12CD echo_fetches echo_warnings z)
  then show ?thesis using body(2) by auto
qed

text \<open>
  The claim as stated has a 200 whenever the basis and fuel fetches succeed and the axle
  fetch throws, and exactly one warning that mentions \<open>assen\<close>. When the basis fetch
  succeeds with no rows the answer of \<open>p1\<close> is 404. When the colour fetch fails with
  the body \<open>assen\<close>, two warnings hold the text \<open>assen\<close>.
\<close>

theorem no_rows_counterexample:
  "fetchJSON sample_engine unknown_world (request_headers (env unknown_world)) (asc ''AB12CD'')
     RDW_basis = Inr (JArr []) \<and>
   fetchJSON sample_engine unknown_world (request_headers (env unknown_world)) (asc ''AB12CD'')
     RDW_brand = Inr (JArr []) \<and>
   fetchJSON sample_engine unknown_world (request_headers (env unknown_world)) (asc ''AB12CD'')
     RDW_assen = Inl (Exn (asc ''TypeError'') (asc ''fetch failed'')) \<and>
   response (handler_p1 sample_engine unknown_world (Some (QStr (asc ''AB12CD'')))) =
     Response 404 (error_body ''Geen voertuig gevonden voor kenteken.'') \<and>
   (\<exists>body. response (handler_p1 sample_engine echo_world (Some (QStr (asc ''AB12CD'')))) =
             Response 200 body \<and>
           fld (fld body ''details'') ''warnings'' =
             JArr [JStr (asc ''kleuren: assen''), JStr (asc ''assen: fetch failed'')]) \<and>
   sublist (asc ''assen'') (asc ''kleuren: assen'') \<and>
   sublist (asc ''assen'') (asc ''assen: fetch failed'')"
proof -
  have n: "response (handler_p1 sample_engine unknown_world (Some (QStr (asc ''AB12CD'')))) =
           Response 404 (error_body ''Geen voertuig gevonden voor kenteken.'')"
    using p1_no_basis [of sample_engine "Some (QStr (asc ''AB12CD''))" unknown_world]
    by (simp add: plate_AB12CD unknown_fetches opt_index0_def index0_def js_or_def)
  have "asc ''kleuren: assen'' = asc ''kleuren: '' @ asc ''assen'' @ []"
    by (simp add: asc_def)
  then have s1: "sublist (asc ''assen'') (asc ''kleuren: assen'')"
    unfolding sublist_def by blast
  have "asc ''assen: fetch failed'' = [] @ asc ''assen'' @ asc '': fetch failed''"
    by (simp add: asc_def)
  then have s2: "sublist (asc ''assen'') (asc ''assen: fetch failed'')"
    unfolding sublist_def by blast
  show ?thesis using n s1 s2 echo_answer by (simp add: unknown_fetches)
qed

lemma first_basis_failed: "first_basis (Inl e) = JNull"
  by simp

lemma first_basis_no_rows: "first_basis (Inr (JArr [])) = JNull"
  by (simp add: opt_index0_def index0_def js_or_def)

lemma quiet_fails: "upstream_fails E quiet_world r"
  by (simp add: upstream_fails_def quiet_world_def)

lemma absent_fetch: "fetchJSON sample_engine absent_world hs p path = Inr (JArr [])"
  by (simp add: fetchJSON_def absent_world_def ok_def sample_parse)

text \<open>
  Claim C10. In \<open>p1\<close>, when the plate is valid and the fetch of the basis dataset throws
  (a network error, a status outside 200 to 299 or a body that does not parse), the
  handler answers 404 with the body \<open>{error: 'Geen voertuig gevonden voor kenteken.'}\<close>
  after its one request: the same outcome as for a basis dataset with no rows. The
  handler writes no status other than 200, 400 and 404, so never a 5xx.
\<close>

theorem basis_failure_is_not_found:
  "(plate_ok (plate_p1 E q) \<and>
    upstream_fails E W
      \<lparr>url = rdw_url E (plate_p1 E q) RDW_basis, headers = request_headers (env W)\<rparr> \<longrightarrow>
    handler_p1 E W q =
      \<lparr>response = Response 404 (error_body ''Geen voertuig gevonden voor kenteken.''),
       requests =
         [\<lparr>url = rdw_url E (plate_p1 E q) RDW_basis, headers = request_headers (env W)\<rparr>]\<rparr>) \<and>
   (plate_ok (plate_p1 E q) \<and>
    fetchJSON E W (request_headers (env W)) (plate_p1 E q) RDW_basis = Inr (JArr []) \<longrightarrow>
    handler_p1 E W q =
      \<lparr>response = Response 404 (error_body ''Geen voertuig gevonden voor kenteken.''),
       requests =
         [\<lparr>url = rdw_url E (plate_p1 E q) RDW_basis, headers = request_headers (env W)\<rparr>]\<rparr>) \<and>
   (\<forall>n b. response (handler_p1 E W q) = Response n b \<longrightarrow> n = 200 \<or> n = 400 \<or> n = 404)"
proof (intro conjI impI allI)
  assume a: "plate_ok (plate_p1 E q) \<and>
    upstream_fails E W
      \<lparr>url = rdw_url E (plate_p1 E q) RDW_basis, headers = request_headers (env W)\<rparr>"
  then obtain e where
    "fetchJSON E W (request_headers (env W)) (plate_p1 E q) RDW_basis = Inl e"
    using fetchJSON_fails_iff by blast
  then have "\<not> truthy (first_basis
      (fetchJSON E W (request_headers (env W)) (plate_p1 E q) RDW_basis))"
    by simp
  with a show "handler_p1 E W q =
      \<lparr>response = Response 404 (error_body ''Geen voertuig gevonden voor kenteken.''),
       requests =
         [\<lparr>url = rdw_url E (plate_p1 E q) RDW_basis, headers = request_headers (env W)\<rparr>]\<rparr>"
    by (simp add: p1_no_basis)
next
  assume a: "plate_ok (plate_p1 E q) \<and>
    fetchJSON E W (request_headers (env W)) (plate_p1 E q) RDW_basis = Inr (JArr [])"
  then have "\<not> truthy (first_basis
      (fetchJSON E W (request_headers (env W)) (plate_p1 E q) RDW_basis))"
    by (simp add: opt_index0_def index0_def js_or_def)
  with a show "handler_p1 E W q =
      \<lparr>response = Response 404 (error_body ''Geen voertuig gevonden voor kenteken.''),
       requests =
         [\<lparr>url = rdw_url E (plate_p1 E q) RDW_basis, headers = request_headers (env W)\<rparr>]\<rparr>"
    by (simp add: p1_no_basis)
next
  fix n b assume "response (handler_p1 E W q) = Response n b"
  then show "n = 200 \<or> n = 400 \<or> n = 404" by (rule p1_statuses)
qed

theorem basis_failure_is_not_found_witness:
  "plate_ok (plate_p1 sample_engine (Some (QStr (asc ''AB12CD'')))) \<and>
   upstream_fails sample_engine quiet_world
     \<lparr>url = rdw_url sample_engine (asc ''AB12CD'') RDW_basis, headers = []\<rparr> \<and>
   response (handler_p1 sample_engine quiet_world (Some (QStr (asc ''AB12CD'')))) =
     Response 404 (error_body ''Geen voertuig gevonden voor kenteken.'') \<and>
   fetchJSON sample_engine absent_world [] (asc ''AB12CD'') RDW_basis = Inr (JArr []) \<and>
   response (handler_p1 sample_engine absent_world (Some (QStr (asc ''AB12CD'')))) =
     Response 404 (error_body ''Geen voertuig gevonden voor kenteken.'')"
proof -
  have q: "request_headers (env quiet_world) = []"
    by (simp add: request_headers_def quiet_world_def)
  have a: "request_headers (env absent_world) = []"
    by (simp add: request_headers_def absent_world_def)
  show ?thesis
    using basis_failure_is_not_found [of sample_engine "Some (QStr (asc ''AB12CD''))" quiet_world]
          basis_failure_is_not_found [of sample_engine "Some (QStr (asc ''AB12CD''))" absent_world]
    by (simp add: plate_AB12CD quiet_fails absent_fetch q a)
qed

subsection \<open>No vehicle found\<close>

lemma promise_all_fulfilled: "map snd ps = map Inr vals \<Longrightarrow> promise_all ps = Inr vals"
proof -
  assume a: "map snd ps = map Inr vals"
  have "List.map_filter rejection ps = [] \<and> List.map_filter fulfilment ps = vals"
    using a
  proof (induction ps arbitrary: vals)
    case Nil
    then show ?case by (simp add: List.map_filter_def)
  next
    case (Cons p ps)
    then obtain v vs where v: "vals = v # vs" "snd p = Inr v" "map snd ps = map Inr vs"
      by (cases vals) auto
    obtain t where p: "p = (t, Inr v)" using v(2) by (cases p) auto
    have "List.map_filter rejection ps = [] \<and> List.map_filter fulfilment ps = vs"
      using Cons.IH [OF v(3)] .
    then show ?case by (simp add: p v(1))
  qed
  then show ?thesis by (simp add: promise_all_def)
qed

lemma answer_not_found:
  assumes "no_make_or_model (vals ! 0)"
  shows "answer E body (Inr vals) =
         Response 404 (error_body ''Geen voertuig gevonden voor kenteken.'')"
proof -
  obtain r rs where arr: "vals ! 0 = JArr (r # rs)"
    and m: "blank (fld r ''merk'')" and h: "blank (fld r ''handelsbenaming'')"
    using assms by (auto simp: no_make_or_model_def split: jsval.splits list.splits)
  have b: "\<And>v. blank v \<Longrightarrow> \<not> truthy v" by (auto simp: blank_def)
  have "\<And>n. blank (fld r n) \<Longrightarrow> \<not> truthy (fld (js_or r (JObj [])) n)"
    using b by (auto simp: js_or_def fld_Nil)
  then show ?thesis
    using m h by (simp add: answer_def arr opt_index0_def index0_def)
qed

lemma server_not_found:
  assumes "plate_server E q \<noteq> []"
    and "map (q_server E W (request_headers (env W))) (dataset_urls (plate_server E q)) =
         map Inr vals"
    and "no_make_or_model (vals ! 0)"
  shows "response (handler_server E W q) =
         Response 404 (error_body ''Geen voertuig gevonden voor kenteken.'')"
proof -
  have "promise_all (map (\<lambda>u. (settled W u, q_server E W (request_headers (env W)) u))
          (dataset_urls (plate_server E q))) = Inr vals"
    using assms(2) by (intro promise_all_fulfilled) (simp add: comp_def)
  then show ?thesis
    using assms(1,3) by (simp add: handler_server_def Let_def answer_not_found)
qed

lemma p0_not_found:
  assumes "plate_ok (plate_p0 E q)"
    and "map (q_p0 E W (request_headers (env W))) (dataset_urls (plate_p0 E q)) = map Inr vals"
    and "no_make_or_model (vals ! 0)"
  shows "response (handler_p0 E W q) =
         Response 404 (error_body ''Geen voertuig gevonden voor kenteken.'')"
proof -
  have "promise_all (map (\<lambda>u. (settled W u, q_p0 E W (request_headers (env W)) u))
          (dataset_urls (plate_p0 E q))) = Inr vals"
    using assms(2) by (intro promise_all_fulfilled) (simp add: comp_def)
  then show ?thesis
    using assms(1,3) by (simp add: handler_p0_def Let_def answer_not_found)
qed

text \<open>
  Claim C4, as amended. In \<^verbatim>\<open>server.js\<close> and \<open>p0\<close>, when all six fetches succeed and the
  first record of the basis dataset has no \<open>merk\<close> and no \<open>handelsbenaming\<close> (absent or
  empty), the answer is 404, whatever the five secondary datasets returned. In \<open>p1\<close> the
  answer to a valid plate is 404 exactly when the basis fetch fails or gives no truthy
  first record; the fields of the record are not looked at.
\<close>

theorem no_vehicle_found:
  "(plate_server E q \<noteq> [] \<and>
    map (q_server E W (request_headers (env W))) (dataset_urls (plate_server E q)) =
      map Inr vals \<and>
    no_make_or_model (vals ! 0) \<longrightarrow>
    response (handler_server E W q) =
      Response 404 (error_body ''Geen voertuig gevonden voor kenteken.'')) \<and>
   (plate_ok (plate_p0 E q) \<and>
    map (q_p0 E W (request_headers (env W))) (dataset_urls (plate_p0 E q)) = map Inr vals \<and>
    no_make_or_model (vals ! 0) \<longrightarrow>
    response (handler_p0 E W q) =
      Response 404 (error_body ''Geen voertuig gevonden voor kenteken.'')) \<and>
   (plate_ok (plate_p1 E q) \<longrightarrow>
    (response (handler_p1 E W q) =
       Response 404 (error_body ''Geen voertuig gevonden voor kenteken.'') \<longleftrightarrow>
     \<not> truthy (first_basis
          (fetchJSON E W (request_headers (env W)) (plate_p1 E q) RDW_basis))))"
  using server_not_found [of E q W vals] p0_not_found [of E q W vals] p1_404_iff [of E q W]
  by blast

lemma blank_fetches:
  "q_server sample_engine blank_world hs u = Inr (JArr [JObj []])"
  "q_p0 sample_engine blank_world hs u = Inr (JArr [JObj []])"
  "fetchJSON sample_engine blank_world hs p path = Inr (JArr [JObj []])"
  by (simp_all add: q_server_def q_p0_def fetchJSON_def r_json_def blank_world_def ok_def
      sample_parse)

lemma blank_row_unknown: "no_make_or_model (JArr [JObj []])"
  by (simp add: no_make_or_model_def blank_def fld_Nil)

theorem no_vehicle_found_witness:
  "no_make_or_model (JArr [JObj []]) \<and>
   response (handler_server sample_engine blank_world (Some (QStr (asc ''AB12CD'')))) =
     Response 404 (error_body ''Geen voertuig gevonden voor kenteken.'') \<and>
   response (handler_p0 sample_engine blank_world (Some (QStr (asc ''AB12CD'')))) =
     Response 404 (error_body ''Geen voertuig gevonden voor kenteken.'') \<and>
   response (handler_p1 sample_engine blank_world (Some (QStr (asc ''AB12CD'')))) \<noteq>
     Response 404 (error_body ''Geen voertuig gevonden voor kenteken.'')"
proof -
  have t: "truthy (js_or (opt_index0 (JArr [JObj []])) JNull)"
    by (simp add: opt_index0_def index0_def js_or_def)
  have n: "asc ''AB12CD'' \<noteq> []" by (simp add: asc_def)
  let ?row = "JArr [JObj []]"
  let ?vals = "[?row, ?row, ?row, ?row, ?row, ?row]"
  have s: "map (q_server sample_engine blank_world (request_headers (env blank_world)))
             (dataset_urls (asc ''AB12CD'')) = map Inr ?vals"
    by (simp add: dataset_urls_def blank_fetches)
  have p: "map (q_p0 sample_engine blank_world (request_headers (env blank_world)))
             (dataset_urls (asc ''AB12CD'')) = map Inr ?vals"
    by (simp add: dataset_urls_def blank_fetches)
  show ?thesis
    using no_vehicle_found [of sample_engine "Some (QStr (asc ''AB12CD''))" blank_world ?vals]
          s p
    by (simp add: plate_AB12CD blank_fetches blank_row_unknown t n)
qed

text \<open>
  The claim as stated has a 404 in every file. In \<open>p1\<close> a first record without
  properties is a record all the same, and the answer is 200.
\<close>

theorem blank_record_counterexample:
  "fetchJSON sample_engine found_world (request_headers (env found_world)) (asc ''AB12CD'')
     RDW_basis = Inr (JArr [JObj []]) \<and>
   no_make_or_model (JArr [JObj []]) \<and>
   (\<exists>body. response (handler_p1 sample_engine found_world (Some (QStr (asc ''AB12CD'')))) =
              Response 200 body)"
proof -
  have "\<exists>body ws.
          response (handler_p1 sample_engine found_world (Some (QStr (asc ''AB12CD'')))) =
            Response 200 body \<and>
          fld (fld body ''details'') ''assen'' = JArr [] \<and>
          fld (fld body ''details'') ''warnings'' = JArr (map JStr ws) \<and>
          filter (prefix (asc ''assen: '')) ws =
            [warning ''assen'' (Exn (asc ''TypeError'') (asc ''fetch failed''))] \<and>
          ((\<exists>v. fetchJSON sample_engine found_world (request_headers (env found_world))
                   (asc ''AB12CD'') RDW_kleuren = Inr v) \<longrightarrow>
           ws = [warning ''assen'' (Exn (asc ''TypeError'') (asc ''fetch failed''))])"
    by (rule p1_partial
          [of "request_headers (env found_world)" found_world "asc ''AB12CD''" sample_engine
              "Some (QStr (asc ''AB12CD''))" "JObj []" "[]" "JArr []"])
       (simp_all add: plate_AB12CD found_fetches record_row_blank record_set_empty)
  then show ?thesis
    by (auto simp: found_fetches blank_row_unknown)
qed

subsection \<open>Outbound headers\<close>















subsection \<open>The order of the fuel list\<close>

lemma sub_positive: "a \<noteq> NaN \<Longrightarrow> b \<noteq> NaN \<Longrightarrow> positive (num_sub a b) \<longleftrightarrow> \<not> num_le a b"
  by (cases a; cases b) auto

lemma num_le_trans: "num_le a b \<Longrightarrow> num_le b c \<Longrightarrow> num_le a c"
  by (cases a; cases b; cases c) auto

lemma num_le_total: "a \<noteq> NaN \<Longrightarrow> b \<noteq> NaN \<Longrightarrow> num_le a b \<or> num_le b a"
  by (cases a; cases b) auto

lemma num_le_not_NaN: "num_le a b \<Longrightarrow> a \<noteq> NaN \<and> b \<noteq> NaN"
  by (cases a; cases b) auto

lemma set_insert_by: "set (insert_by cmp x ys) = insert x (set ys)"
  by (induction ys) auto

lemma mset_insert_by: "mset (insert_by cmp x ys) = add_mset x (mset ys)"
  by (induction ys) auto

lemma mset_js_sort: "mset (js_sort cmp xs) = mset xs"
  by (induction xs) (auto simp: js_sort_def mset_insert_by)

lemma set_js_sort: "set (js_sort cmp xs) = set xs"
  using mset_js_sort [of cmp xs] by (metis set_mset_mset)

lemma sorted_insert_by:
  assumes "k x \<noteq> NaN" and "\<forall>y \<in> set ys. k y \<noteq> NaN"
    and "sorted_wrt (\<lambda>a b. num_le (k a) (k b)) ys"
  shows "sorted_wrt (\<lambda>a b. num_le (k a) (k b)) (insert_by (\<lambda>a b. num_sub (k a) (k b)) x ys)"
  using assms
proof (induction ys)
  case Nil
  then show ?case by simp
next
  case (Cons y ys)
  show ?case
  proof (cases "positive (num_sub (k x) (k y))")
    case True
    then have "\<not> num_le (k x) (k y)" using Cons.prems by (simp add: sub_positive)
    then have yx: "num_le (k y) (k x)" using Cons.prems num_le_total [of "k x" "k y"] by auto
    have "sorted_wrt (\<lambda>a b. num_le (k a) (k b)) (insert_by (\<lambda>a b. num_sub (k a) (k b)) x ys)"
      using Cons by simp
    then show ?thesis
      using True yx Cons.prems by (auto simp: set_insert_by)
  next
    case False
    then have xy: "num_le (k x) (k y)" using Cons.prems by (simp add: sub_positive)
    then have "\<forall>z \<in> set ys. num_le (k x) (k z)"
      using Cons.prems num_le_trans by fastforce
    then show ?thesis using False xy Cons.prems by simp
  qed
qed

lemma sorted_js_sort:
  assumes "\<forall>y \<in> set xs. k y \<noteq> NaN"
  shows "sorted_wrt (\<lambda>a b. num_le (k a) (k b)) (js_sort (\<lambda>a b. num_sub (k a) (k b)) xs)"
  using assms
proof (induction xs)
  case Nil
  then show ?case by (simp add: js_sort_def)
next
  case (Cons x xs)
  then have "sorted_wrt (\<lambda>a b. num_le (k a) (k b)) (js_sort (\<lambda>a b. num_sub (k a) (k b)) xs)"
    by simp
  moreover have "js_sort (\<lambda>a b. num_sub (k a) (k b)) (x # xs) =
                 insert_by (\<lambda>a b. num_sub (k a) (k b)) x (js_sort (\<lambda>a b. num_sub (k a) (k b)) xs)"
    by (simp add: js_sort_def)
  ultimately show ?case
    using Cons.prems by (simp add: sorted_insert_by set_js_sort)
qed

lemma stable_insert_by:
  assumes "k x \<noteq> NaN" and "\<forall>y \<in> set ys. k y \<noteq> NaN"
  shows "filter (\<lambda>y. k y = c) (insert_by (\<lambda>a b. num_sub (k a) (k b)) x ys) =
         filter (\<lambda>y. k y = c) (x # ys)"
  using assms
proof (induction ys)
  case Nil
  then show ?case by simp
next
  case (Cons y ys)
  show ?case
  proof (cases "positive (num_sub (k x) (k y))")
    case True
    then have "\<not> num_le (k x) (k y)" using Cons.prems by (simp add: sub_positive)
    then have "k x \<noteq> k y" using Cons.prems num_le_total [of "k x" "k x"] by auto
    then show ?thesis using True Cons by auto
  next
    case False
    then show ?thesis by simp
  qed
qed

lemma stable_js_sort:
  assumes "\<forall>y \<in> set xs. k y \<noteq> NaN"
  shows "filter (\<lambda>y. k y = c) (js_sort (\<lambda>a b. num_sub (k a) (k b)) xs) = filter (\<lambda>y. k y = c) xs"
  using assms
proof (induction xs)
  case Nil
  then show ?case by (simp add: js_sort_def)
next
  case (Cons x xs)
  have "js_sort (\<lambda>a b. num_sub (k a) (k b)) (x # xs) =
        insert_by (\<lambda>a b. num_sub (k a) (k b)) x (js_sort (\<lambda>a b. num_sub (k a) (k b)) xs)"
    by (simp add: js_sort_def)
  then show ?case
    using Cons by (simp add: stable_insert_by set_js_sort)
qed
lemma placed_coerce: "ToNumber E (js_or (coerce E x) (JNum (Fin d))) = placed d (coerce E x)"
  by (auto simp: coerce_def js_or_def)

lemma placed_not_NaN: "placed d v \<noteq> NaN"
  by (cases v) auto

lemma key_fuel_row:
  "sort_key_of E ''volgnummer'' 0 (fuel_row E b) = placed 0 (fld (fuel_row E b) ''volgnummer'')"
  by (simp add: sort_key_of_def fuel_row_def fld_simps placed_coerce)

lemma key_fuel_row_p1:
  "sort_key_of E ''brandstof_volgnummer'' 99 (fuel_row_p1 E b) =
   placed 99 (fld (fuel_row_p1 E b) ''brandstof_volgnummer'')"
  by (simp add: sort_key_of_def fuel_row_p1_def fld_simps placed_coerce)

lemma those_on_row_Some: "those (map (on_row f) xs) = Some ys \<Longrightarrow> ys = map f xs"
  by (induction xs arbitrary: ys) (auto simp: on_row_def split: if_splits option.splits)

lemma js_map_Some:
  "js_map v (on_row f) = Some out \<Longrightarrow>
   \<exists>xs. js_or v (JArr []) = JArr xs \<and> out = JArr (map f xs)"
  by (auto simp: js_map_def split: jsval.splits dest: those_on_row_Some)

lemma sort_rows:
  assumes k: "\<And>b. k (f b) = p (f b)" and n: "\<And>v. p v \<noteq> NaN"
    and cmp: "cmp = (\<lambda>a b. num_sub (k a) (k b))"
  shows "mset (js_sort cmp (map f xs)) = mset (map f xs) \<and>
         sorted_wrt (\<lambda>a b. num_le (p a) (p b)) (js_sort cmp (map f xs)) \<and>
         (\<forall>c. filter (\<lambda>r. p r = c) (js_sort cmp (map f xs)) = filter (\<lambda>r. p r = c) (map f xs))"
proof -
  have nn: "\<forall>y \<in> set (map f xs). k y \<noteq> NaN" using k n by auto
  have s: "set (js_sort cmp (map f xs)) = set (map f xs)" by (rule set_js_sort)
  have kp: "\<And>r. r \<in> set (map f xs) \<Longrightarrow> k r = p r" using k by auto
  have a: "sorted_wrt (\<lambda>a b. num_le (k a) (k b)) (js_sort cmp (map f xs))"
    unfolding cmp using nn by (rule sorted_js_sort)
  have "sorted_wrt (\<lambda>a b. num_le (p a) (p b)) (js_sort cmp (map f xs))"
    by (rule sorted_wrt_mono_rel [OF _ a]) (simp add: s kp)
  moreover have "\<forall>c. filter (\<lambda>r. p r = c) (js_sort cmp (map f xs)) = filter (\<lambda>r. p r = c) (map f xs)"
  proof
    fix c
    have "filter (\<lambda>r. k r = c) (js_sort cmp (map f xs)) = filter (\<lambda>r. k r = c) (map f xs)"
      unfolding cmp using nn by (rule stable_js_sort)
    moreover have "filter (\<lambda>r. p r = c) (js_sort cmp (map f xs)) =
                   filter (\<lambda>r. k r = c) (js_sort cmp (map f xs))"
      by (rule filter_cong) (simp_all add: s kp)
    moreover have "filter (\<lambda>r. p r = c) (map f xs) = filter (\<lambda>r. k r = c) (map f xs)"
      by (rule filter_cong) (simp_all add: kp)
    ultimately show "filter (\<lambda>r. p r = c) (js_sort cmp (map f xs)) = filter (\<lambda>r. p r = c) (map f xs)"
      by simp
  qed
  ultimately show ?thesis by (simp add: mset_js_sort)
qed

lemma fuels_Some:
  "fuels E arr = Some out \<Longrightarrow>
   \<exists>xs. js_or arr (JArr []) = JArr xs \<and>
        out = JArr (js_sort (by_volgnummer E) (map (fuel_row E) xs))"
  by (auto simp: fuels_def dest!: js_map_Some)

lemma fuels_p1_Some:
  "fuels_p1 E arr = Some out \<Longrightarrow>
   \<exists>xs. js_or arr (JArr []) = JArr xs \<and>
        out = JArr (js_sort (by_volgnummer_p1 E) (map (fuel_row_p1 E) xs))"
  by (auto simp: fuels_p1_def dest!: js_map_Some)

lemma fuels_rows: "record_set v \<Longrightarrow> \<exists>ys. fuels E v = Some (JArr ys)"
  using js_map_rows [of v "fuel_row E"] by (auto simp: fuels_def)

lemma fuels_sorted_server:
  assumes "fuels E arr = Some out"
  shows "\<exists>xs sorted.
           js_or arr (JArr []) = JArr xs \<and> out = JArr sorted \<and>
           mset sorted = mset (map (fuel_row E) xs) \<and>
           sorted_wrt (\<lambda>a b. num_le (placed 0 (fld a ''volgnummer''))
                                    (placed 0 (fld b ''volgnummer''))) sorted \<and>
           (\<forall>c. filter (\<lambda>r. placed 0 (fld r ''volgnummer'') = c) sorted =
                filter (\<lambda>r. placed 0 (fld r ''volgnummer'') = c) (map (fuel_row E) xs))"
proof -
  obtain xs where xs: "js_or arr (JArr []) = JArr xs"
    "out = JArr (js_sort (by_volgnummer E) (map (fuel_row E) xs))"
    using fuels_Some [OF assms] by blast
  have "by_volgnummer E = (\<lambda>a b. num_sub (sort_key_of E ''volgnummer'' 0 a)
                                         (sort_key_of E ''volgnummer'' 0 b))"
    by (simp add: by_volgnummer_def fun_eq_iff)
  from sort_rows [of "sort_key_of E ''volgnummer'' 0" "fuel_row E"
                     "\<lambda>r. placed 0 (fld r ''volgnummer'')", OF key_fuel_row placed_not_NaN this]
  show ?thesis using xs by blast
qed

lemma fuels_sorted_p1:
  assumes "fuels_p1 E arr = Some out"
  shows "\<exists>xs sorted.
           js_or arr (JArr []) = JArr xs \<and> out = JArr sorted \<and>
           mset sorted = mset (map (fuel_row_p1 E) xs) \<and>
           sorted_wrt (\<lambda>a b. num_le (placed 99 (fld a ''brandstof_volgnummer''))
                                    (placed 99 (fld b ''brandstof_volgnummer''))) sorted \<and>
           (\<forall>c. filter (\<lambda>r. placed 99 (fld r ''brandstof_volgnummer'') = c) sorted =
                filter (\<lambda>r. placed 99 (fld r ''brandstof_volgnummer'') = c)
                  (map (fuel_row_p1 E) xs))"
proof -
  obtain xs where xs: "js_or arr (JArr []) = JArr xs"
    "out = JArr (js_sort (by_volgnummer_p1 E) (map (fuel_row_p1 E) xs))"
    using fuels_p1_Some [OF assms] by blast
  have "by_volgnummer_p1 E = (\<lambda>a b. num_sub (sort_key_of E ''brandstof_volgnummer'' 99 a)
                                            (sort_key_of E ''brandstof_volgnummer'' 99 b))"
    by (simp add: by_volgnummer_p1_def fun_eq_iff)
  from sort_rows [of "sort_key_of E ''brandstof_volgnummer'' 99" "fuel_row_p1 E"
                     "\<lambda>r. placed 99 (fld r ''brandstof_volgnummer'')",
                  OF key_fuel_row_p1 placed_not_NaN this]
  show ?thesis using xs by blast
qed

lemma coerce_digits:
  "coerce E (JStr (asc ''0'')) = JNum (Fin 0)"
  "coerce E (JStr (asc ''1'')) = JNum (Fin 1)"
  "coerce E (JStr (asc ''2'')) = JNum (Fin 2)"
  "coerce E JUndefined = JNull"
  by (simp_all add: coerce_def asc_def number_defs)

lemma numbered_keys:
  "sort_key_of E ''volgnummer'' 0 (fuel_row E (numbered ''1'')) = Fin 1"
  "sort_key_of E ''volgnummer'' 0 (fuel_row E (numbered ''2'')) = Fin 2"
  "sort_key_of E ''volgnummer'' 0 (fuel_row E (JObj [])) = Fin 0"
  "sort_key_of E ''brandstof_volgnummer'' 99 (fuel_row_p1 E (numbered ''0'')) = Fin 99"
  "sort_key_of E ''brandstof_volgnummer'' 99 (fuel_row_p1 E (numbered ''1'')) = Fin 1"
  "sort_key_of E ''brandstof_volgnummer'' 99 (fuel_row_p1 E (numbered ''2'')) = Fin 2"
  "sort_key_of E ''brandstof_volgnummer'' 99 (fuel_row_p1 E (JObj [])) = Fin 99"
  by (simp_all only: key_fuel_row key_fuel_row_p1)
     (simp_all add: fuel_row_def fuel_row_p1_def fld_simps numbered_def coerce_digits)

lemma numbered_rows: "\<not> nullish (numbered n)" "\<not> nullish (JObj [])"
  by (simp_all add: numbered_def)

lemma fuels_example:
  "fuels E (JArr [numbered ''2'', numbered ''1'', JObj []]) =
     Some (JArr [fuel_row E (JObj []), fuel_row E (numbered ''1''), fuel_row E (numbered ''2'')])"
  by (simp add: fuels_def js_map_def js_or_def on_row_def numbered_rows js_sort_def
      by_volgnummer_def numbered_keys)

lemma fuels_p1_example:
  "fuels_p1 E (JArr [numbered ''2'', numbered ''1'', JObj []]) =
     Some (JArr [fuel_row_p1 E (numbered ''1''), fuel_row_p1 E (numbered ''2''),
                 fuel_row_p1 E (JObj [])])"
  by (simp add: fuels_p1_def js_map_def js_or_def on_row_def numbered_rows js_sort_def
      by_volgnummer_p1_def numbered_keys)

lemma fuels_p1_zero:
  "fuels_p1 E (JArr [numbered ''0'', numbered ''1'']) =
     Some (JArr [fuel_row_p1 E (numbered ''1''), fuel_row_p1 E (numbered ''0'')])"
  by (simp add: fuels_p1_def js_map_def js_or_def on_row_def numbered_rows js_sort_def
      by_volgnummer_p1_def numbered_keys)

lemma numbered_fields:
  "fld (fuel_row_p1 E (numbered ''0'')) ''brandstof_volgnummer'' = JNum (Fin 0)"
  "fld (fuel_row_p1 E (numbered ''1'')) ''brandstof_volgnummer'' = JNum (Fin 1)"
  by (simp_all add: fuel_row_p1_def fld_simps numbered_def coerce_digits)

lemma body_server_fuels:
  "body_server E plate basis vals = Some b \<Longrightarrow>
   fuels E (vals ! 1) = Some (fld (fld b ''details'') ''brandstoffen'')"
  by (clarsimp simp: body_server_def bind_eq_Some_conv fld_simps)

lemma body_p0_fuels:
  "body_p0 E plate basis vals = Some b \<Longrightarrow>
   fuels E (vals ! 1) = Some (fld (fld b ''details'') ''brandstoffen'')"
  by (clarsimp simp: body_p0_def bind_eq_Some_conv fld_simps)

lemma body_p1_fuels:
  "body_p1 E plate basis brand kl asn ws = Some b \<Longrightarrow>
   fuels_p1 E brand = Some (fld (fld b ''details'') ''brandstoffen'')"
  by (clarsimp simp: body_p1_def bind_eq_Some_conv fld_simps)
text \<open>
  Claim C5, as amended. The fuel list of the details is a stable sort of the shaped fuel
  rows, and it exists for every record set. In \<^verbatim>\<open>server.js\<close> and \<open>p0\<close> it is ascending
  by the coerced sequence number with \<open>null\<close> (and \<open>NaN\<close>) counted as 0, so the numbers
  2, 1, \<open>null\<close> come out as \<open>null\<close>, 1, 2. In \<open>p1\<close> it is ascending by the coerced
  sequence number with \<open>null\<close>, \<open>NaN\<close> and also the number 0 counted as 99, so
  2, 1, \<open>null\<close> come out as 1, 2, \<open>null\<close>.
\<close>

theorem fuel_list_sorted:
  "(record_set arr \<longrightarrow> (\<exists>ys. fuels E arr = Some (JArr ys)) \<and> (\<exists>ys. fuels_p1 E arr = Some (JArr ys))) \<and>
   (fuels E arr = Some out \<longrightarrow>
      (\<exists>xs sorted.
         js_or arr (JArr []) = JArr xs \<and> out = JArr sorted \<and>
         mset sorted = mset (map (fuel_row E) xs) \<and>
         sorted_wrt (\<lambda>a b. num_le (placed 0 (fld a ''volgnummer''))
                                  (placed 0 (fld b ''volgnummer''))) sorted \<and>
         (\<forall>c. filter (\<lambda>r. placed 0 (fld r ''volgnummer'') = c) sorted =
              filter (\<lambda>r. placed 0 (fld r ''volgnummer'') = c) (map (fuel_row E) xs)))) \<and>
   (fuels_p1 E arr = Some out \<longrightarrow>
      (\<exists>xs sorted.
         js_or arr (JArr []) = JArr xs \<and> out = JArr sorted \<and>
         mset sorted = mset (map (fuel_row_p1 E) xs) \<and>
         sorted_wrt (\<lambda>a b. num_le (placed 99 (fld a ''brandstof_volgnummer''))
                                  (placed 99 (fld b ''brandstof_volgnummer''))) sorted \<and>
         (\<forall>c. filter (\<lambda>r. placed 99 (fld r ''brandstof_volgnummer'') = c) sorted =
              filter (\<lambda>r. placed 99 (fld r ''brandstof_volgnummer'') = c)
                (map (fuel_row_p1 E) xs)))) \<and>
   (body_server E plate basis vals = Some b \<longrightarrow>
      fuels E (vals ! 1) = Some (fld (fld b ''details'') ''brandstoffen'')) \<and>
   (body_p0 E plate basis vals = Some b \<longrightarrow>
      fuels E (vals ! 1) = Some (fld (fld b ''details'') ''brandstoffen'')) \<and>
   (body_p1 E plate basis brand kl asn ws = Some b \<longrightarrow>
      fuels_p1 E brand = Some (fld (fld b ''details'') ''brandstoffen'')) \<and>
   fuels E (JArr [numbered ''2'', numbered ''1'', JObj []]) =
     Some (JArr [fuel_row E (JObj []), fuel_row E (numbered ''1''), fuel_row E (numbered ''2'')]) \<and>
   fuels_p1 E (JArr [numbered ''2'', numbered ''1'', JObj []]) =
     Some (JArr [fuel_row_p1 E (numbered ''1''), fuel_row_p1 E (numbered ''2''),
                 fuel_row_p1 E (JObj [])])"
  using fuels_rows [of arr E] fuels_p1_rows [of arr E]
        fuels_sorted_server [of E arr out] fuels_sorted_p1 [of E arr out]
        body_server_fuels [of E plate basis vals b] body_p0_fuels [of E plate basis vals b]
        body_p1_fuels [of E plate basis brand kl asn ws b]
        fuels_example [of E] fuels_p1_example [of E]
  by blast

theorem fuel_list_sorted_witness:
  "record_set (JArr [numbered ''2'', numbered ''1'', JObj []]) \<and>
   fuels sample_engine (JArr [numbered ''2'', numbered ''1'', JObj []]) =
     Some (JArr [fuel_row sample_engine (JObj []), fuel_row sample_engine (numbered ''1''),
                 fuel_row sample_engine (numbered ''2'')]) \<and>
   sorted_wrt (\<lambda>a b. num_le (placed 0 (fld a ''volgnummer'')) (placed 0 (fld b ''volgnummer'')))
     [fuel_row sample_engine (JObj []), fuel_row sample_engine (numbered ''1''),
      fuel_row sample_engine (numbered ''2'')]"
proof -
  let ?arr = "JArr [numbered ''2'', numbered ''1'', JObj []]"
  let ?out = "JArr [fuel_row sample_engine (JObj []), fuel_row sample_engine (numbered ''1''),
                    fuel_row sample_engine (numbered ''2'')]"
  have r: "record_set ?arr"
    by (simp add: record_set_def record_row_def numbered_def)
  have f: "fuels sample_engine ?arr = Some ?out" by (rule fuels_example)
  from fuel_list_sorted [of ?arr sample_engine ?out] f
  have "\<exists>xs sorted. js_or ?arr (JArr []) = JArr xs \<and> ?out = JArr sorted \<and>
          mset sorted = mset (map (fuel_row sample_engine) xs) \<and>
          sorted_wrt (\<lambda>a b. num_le (placed 0 (fld a ''volgnummer''))
                                   (placed 0 (fld b ''volgnummer''))) sorted \<and>
          (\<forall>c. filter (\<lambda>r. placed 0 (fld r ''volgnummer'') = c) sorted =
               filter (\<lambda>r. placed 0 (fld r ''volgnummer'') = c)
                 (map (fuel_row sample_engine) xs))"
    by blast
  then have "sorted_wrt (\<lambda>a b. num_le (placed 0 (fld a ''volgnummer''))
                                      (placed 0 (fld b ''volgnummer'')))
               [fuel_row sample_engine (JObj []), fuel_row sample_engine (numbered ''1''),
                fuel_row sample_engine (numbered ''2'')]"
    by blast
  then show ?thesis using r f by blast
qed

text \<open>
  The claim as stated has the list ascending by the coerced sequence number, with a
  rule of its own only for \<open>null\<close> and missing numbers. In \<open>p1\<close> the rows numbered 0 and 1
  come out as 1, 0: the number 0 is falsy and is placed as 99.
\<close>

theorem fuel_zero_counterexample:
  "fuels_p1 sample_engine (JArr [numbered ''0'', numbered ''1'']) =
     Some (JArr [fuel_row_p1 sample_engine (numbered ''1''),
                 fuel_row_p1 sample_engine (numbered ''0'')]) \<and>
   fld (fuel_row_p1 sample_engine (numbered ''1'')) ''brandstof_volgnummer'' = JNum (Fin 1) \<and>
   fld (fuel_row_p1 sample_engine (numbered ''0'')) ''brandstof_volgnummer'' = JNum (Fin 0)"
  by (simp add: fuels_p1_zero numbered_fields)

subsection \<open>Colours and fuel in the summary\<close>

lemma no_first_colour: "index0 (JArr []) = Some JUndefined"
  by (simp add: index0_def)

lemma backfilled_no_colour:
  "backfilled basis JUndefined f0 =
     [(asc ''kleur'', js_or (fld basis ''eerste_kleur'') JNull),
      (asc ''tweede_kleur'', JNull),
      (asc ''brandstof'', js_or (opt_fld f0 ''omschrijving'') JNull)]"
  by (simp add: backfilled_def opt_fld_def js_or_def)

lemma two_tone_fields:
  "fld two_tone ''eerste_kleur'' = JStr (asc ''ROOD'')"
  "fld two_tone ''tweede_kleur'' = JStr (asc ''ZWART'')"
  "fld two_tone ''datum_eerste_toelating'' = JUndefined"
  "fld two_tone ''vervaldatum_apk'' = JUndefined"
  by (simp_all add: two_tone_def fld_simps)

lemma two_tone_summary_p1:
  "\<exists>s. summary_p1 E plate two_tone (JArr []) (JArr []) = Some s \<and>
       fld s ''kleur'' = JStr (asc ''ROOD'') \<and> fld s ''tweede_kleur'' = JNull"
  by (simp add: summary_p1_def two_tone_fields bouwjaar_def parseDate_p_def no_first_colour
      backfilled_no_colour fld_simps js_or_def opt_fld_def asc_Nil_iff)

lemma two_tone_summary:
  "\<exists>s. summary (\<lambda>s. Some (parseDate_server s)) E plate two_tone (JArr []) (JArr []) = Some s \<and>
       fld s ''kleur'' = JStr (asc ''ROOD'') \<and> fld s ''tweede_kleur'' = JNull"
  by (simp add: summary_def two_tone_fields bouwjaar_def no_first_colour
      backfilled_no_colour fld_simps js_or_def opt_fld_def asc_Nil_iff)

text \<open>
  Claim C8, the code at the failing input. With an empty colour list \<open>kleuren[0]\<close> is
  \<open>undefined\<close>: \<open>summary.kleur\<close> falls back to \<open>basis.eerste_kleur\<close>, and
  \<open>summary.brandstof\<close> is the description of the first fuel entry, but
  \<open>summary.tweede_kleur\<close> is \<open>null\<close> whatever the basis row holds. For a basis row
  with the colours ROOD and ZWART the summary has \<open>kleur\<close> ROOD and \<open>tweede_kleur\<close>
  \<open>null\<close>, in \<open>p1\<close> and in \<^verbatim>\<open>server.js\<close>.
\<close>

theorem second_colour_has_no_fallback:
  "index0 (JArr []) = Some JUndefined \<and>
   backfilled basis JUndefined f0 =
     [(asc ''kleur'', js_or (fld basis ''eerste_kleur'') JNull),
      (asc ''tweede_kleur'', JNull),
      (asc ''brandstof'', js_or (opt_fld f0 ''omschrijving'') JNull)] \<and>
   fld two_tone ''tweede_kleur'' = JStr (asc ''ZWART'') \<and>
   (\<exists>s. summary_p1 E plate two_tone (JArr []) (JArr []) = Some s \<and>
        fld s ''kleur'' = JStr (asc ''ROOD'') \<and> fld s ''tweede_kleur'' = JNull) \<and>
   (\<exists>s. summary (\<lambda>s. Some (parseDate_server s)) E plate two_tone (JArr []) (JArr []) = Some s \<and>
        fld s ''kleur'' = JStr (asc ''ROOD'') \<and> fld s ''tweede_kleur'' = JNull)"
  using no_first_colour backfilled_no_colour [of basis f0] two_tone_fields(2)
        two_tone_summary_p1 [of E plate] two_tone_summary [of E plate]
  by blast

theorem second_colour_has_no_fallback_witness:
  "backfilled two_tone JUndefined JUndefined =
     [(asc ''kleur'', JStr (asc ''ROOD'')),
      (asc ''tweede_kleur'', JNull),
      (asc ''brandstof'', JNull)]"
  using second_colour_has_no_fallback [of two_tone JUndefined sample_engine "asc ''AB12CD''"]
  by (simp add: two_tone_fields js_or_def opt_fld_def asc_Nil_iff)

end
